theory Spec2Isabelle
  imports Complex_Main "HOL-Library.Sublist" "HOL-Library.Word"
begin

section \<open>Strings as Python sees them\<close>

text \<open>
  A Python \<open>str\<close> is modelled as a \<open>string\<close> holding its UTF-8 bytes. The helpers below
  are the ASCII part of the corresponding \<open>str\<close> methods; bytes above 127 are left alone
  by \<open>lower\<close> and count neither as digits, whitespace nor word characters.
\<close>

definition is_upper :: "char \<Rightarrow> bool" where
  "is_upper c = (65 \<le> (of_char c :: int) \<and> (of_char c :: int) \<le> 90)"

definition lower_char :: "char \<Rightarrow> char" where
  "lower_char c = (if is_upper c then char_of ((of_char c :: int) + 32) else c)"

definition lower :: "string \<Rightarrow> string" where
  "lower s = map lower_char s"

definition is_digit :: "char \<Rightarrow> bool" where
  "is_digit c = (48 \<le> (of_char c :: int) \<and> (of_char c :: int) \<le> 57)"

definition is_space :: "char \<Rightarrow> bool" where
  "is_space c = ((9 \<le> (of_char c :: int) \<and> (of_char c :: int) \<le> 13)
                 \<or> (28 \<le> (of_char c :: int) \<and> (of_char c :: int) \<le> 32))"

definition is_word_char :: "char \<Rightarrow> bool" where
  "is_word_char c = (is_digit c \<or> is_upper c
                     \<or> (97 \<le> (of_char c :: int) \<and> (of_char c :: int) \<le> 122) \<or> c = CHR ''_'')"

text \<open>\<open>sub in s\<close>: the substring test.\<close>

fun contains :: "string \<Rightarrow> string \<Rightarrow> bool" where
  "contains sub [] = (sub = [])"
| "contains sub (c # cs) = (prefix sub (c # cs) \<or> contains sub cs)"

text \<open>\<open>s.strip()\<close>.\<close>

definition strip :: "string \<Rightarrow> string" where
  "strip s = rev (dropWhile is_space (rev (dropWhile is_space s)))"

section \<open>The categorizer (utils/categorizer.py)\<close>

text \<open>The table is a Python dict literal: iteration follows the order it is written in.\<close>

definition category_patterns :: "(string \<times> string list) list" where
  "category_patterns =
   [(''Food & Dining'',
       [''restaurant'', ''cafe'', ''coffee'', ''starbucks'', ''mcdonalds'', ''subway'',
        ''pizza'', ''burger'', ''food'', ''dining'', ''doordash'', ''uber eats'',
        ''grubhub'', ''swiggy'', ''zomato'', ''dominos'', ''kfc'', ''taco bell'']),
    (''Groceries'',
       [''walmart'', ''target'', ''costco'', ''kroger'', ''safeway'', ''whole foods'',
        ''trader joe'', ''grocery'', ''supermarket'', ''big bazaar'', ''dmart'',
        ''reliance fresh'', ''more'', ''spencer'']),
    (''Transportation'',
       [''uber'', ''lyft'', ''taxi'', ''metro'', ''bus'', ''train'', ''airline'',
        ''gas station'', ''shell'', ''exxon'', ''chevron'', ''bp'', ''ola'',
        ''autorickshaw'', ''parking'', ''toll'']),
    (''Shopping'',
       [''amazon'', ''ebay'', ''flipkart'', ''myntra'', ''ajio'', ''nike'',
        ''adidas'', ''h&m'', ''zara'', ''uniqlo'', ''walmart'', ''target'',
        ''best buy'', ''apple store'', ''macy'', ''nordstrom'']),
    (''Entertainment'',
       [''netflix'', ''spotify'', ''disney'', ''hulu'', ''amazon prime'',
        ''youtube'', ''movie'', ''theater'', ''cinema'', ''concert'',
        ''hotstar'', ''zee5'', ''sony liv'', ''voot'']),
    (''Utilities'',
       [''electric'', ''electricity'', ''water'', ''gas'', ''internet'',
        ''phone'', ''mobile'', ''broadband'', ''wifi'', ''cable'',
        ''bsnl'', ''airtel'', ''jio'', ''vodafone'']),
    (''Healthcare'',
       [''hospital'', ''clinic'', ''pharmacy'', ''medical'', ''doctor'',
        ''dentist'', ''cvs'', ''walgreens'', ''apollo'', ''fortis'',
        ''max healthcare'', ''aiims'']),
    (''Banking & Finance'',
       [''bank'', ''atm'', ''transfer'', ''fee'', ''interest'', ''loan'',
        ''credit card'', ''mortgage'', ''insurance'', ''premium'',
        ''mutual fund'', ''sip'', ''investment'']),
    (''Education'',
       [''school'', ''university'', ''college'', ''tuition'', ''course'',
        ''udemy'', ''coursera'', ''khan academy'', ''byju'', ''unacademy'']),
    (''Travel'',
       [''hotel'', ''airbnb'', ''booking'', ''expedia'', ''makemytrip'',
        ''goibibo'', ''yatra'', ''cleartrip'', ''oyo'', ''treebo'']),
    (''Salary/Income'',
       [''salary'', ''payroll'', ''wages'', ''income'', ''bonus'',
        ''dividend'', ''interest earned'', ''refund''])]"

text \<open>
  The nested loop of \<open>_categorize_transaction\<close>: categories in table order, and within a
  category any pattern that is a substring of the lower-cased description returns it.
\<close>

fun any_pattern :: "string list \<Rightarrow> string \<Rightarrow> bool" where
  "any_pattern [] d = False"
| "any_pattern (p # ps) d = (if contains (lower p) d then True else any_pattern ps d)"

fun first_category :: "(string \<times> string list) list \<Rightarrow> string \<Rightarrow> string option" where
  "first_category [] d = None"
| "first_category ((c, ps) # rest) d =
     (if any_pattern ps d then Some c else first_category rest d)"

text \<open>
  \<open>re.search(r'\b(w1|w2|...)\b', s)\<close> for words that begin and end with a word character:
  some occurrence of one of the words has no word character right before it and none
  right after it. \<open>prev\<close> is the character before the current position.
\<close>

definition boundary_after :: "string \<Rightarrow> bool" where
  "boundary_after rest = (case rest of [] \<Rightarrow> True | d # _ \<Rightarrow> \<not> is_word_char d)"

definition boundary_before :: "char option \<Rightarrow> bool" where
  "boundary_before prev = (case prev of None \<Rightarrow> True | Some p \<Rightarrow> \<not> is_word_char p)"

fun word_here :: "string list \<Rightarrow> string \<Rightarrow> bool" where
  "word_here [] s = False"
| "word_here (w # ws) s =
     (if prefix w s \<and> boundary_after (drop (length w) s) then True else word_here ws s)"

fun search_words :: "string list \<Rightarrow> char option \<Rightarrow> string \<Rightarrow> bool" where
  "search_words ws prev [] = False"
| "search_words ws prev (c # cs) =
     (if boundary_before prev \<and> word_here ws (c # cs) then True
      else search_words ws (Some c) cs)"

text \<open>\<open>pd.isna(description)\<close> is the case \<open>None\<close>.\<close>

definition categorize_transaction :: "string option \<Rightarrow> string" where
  "categorize_transaction description =
     (case description of
        None \<Rightarrow> ''Other''
      | Some d \<Rightarrow>
          let description_lower = lower d in
          (case first_category category_patterns description_lower of
             Some category \<Rightarrow> category
           | None \<Rightarrow>
               if search_words [''atm'', ''withdrawal''] None description_lower
                 then ''Banking & Finance''
               else if search_words [''transfer'', ''payment''] None description_lower
                 then ''Banking & Finance''
               else if search_words [''gas'', ''fuel'', ''petrol'', ''diesel''] None description_lower
                 then ''Transportation''
               else if search_words [''medical'', ''health'', ''medicine''] None description_lower
                 then ''Healthcare''
               else ''Other''))"


section \<open>Python floats and \<open>float(str)\<close>\<close>

text \<open>
  An amount is a Python float. The model has the three special values and keeps a finite
  float as a rational: a decimal in the range of binary64 stands for the float nearest
  to it (the rounding of the digits is not modelled), and the two zeros are one value.
  Comparisons with a NaN are false, except \<open>!=\<close>, as in Python.
\<close>

datatype pyfloat = Fin rat | PInf | NInf | NaN

fun fabs :: "pyfloat \<Rightarrow> pyfloat" where
  "fabs (Fin q) = Fin \<bar>q\<bar>"
| "fabs PInf = PInf"
| "fabs NInf = PInf"
| "fabs NaN = NaN"

fun fneg :: "pyfloat \<Rightarrow> pyfloat" where
  "fneg (Fin q) = Fin (- q)"
| "fneg PInf = NInf"
| "fneg NInf = PInf"
| "fneg NaN = NaN"

text \<open>\<open>x < 0\<close>, \<open>x > 0\<close> and \<open>x != 0\<close>.\<close>

fun flt0 :: "pyfloat \<Rightarrow> bool" where
  "flt0 (Fin q) = (q < 0)"
| "flt0 PInf = False"
| "flt0 NInf = True"
| "flt0 NaN = False"

fun fgt0 :: "pyfloat \<Rightarrow> bool" where
  "fgt0 (Fin q) = (0 < q)"
| "fgt0 PInf = True"
| "fgt0 NInf = False"
| "fgt0 NaN = False"

fun fne0 :: "pyfloat \<Rightarrow> bool" where
  "fne0 (Fin q) = (q \<noteq> 0)"
| "fne0 PInf = True"
| "fne0 NInf = True"
| "fne0 NaN = True"

definition digit_val :: "char \<Rightarrow> int" where
  "digit_val c = (of_char c :: int) - 48"

definition digit_char :: "int \<Rightarrow> char" where
  "digit_char d = char_of (48 + d)"

definition int_of_digits :: "string \<Rightarrow> int" where
  "int_of_digits ds = foldl (\<lambda>a c. 10 * a + digit_val c) 0 ds"

text \<open>
  The grammar of \<open>float(s)\<close> (Python language reference, ASCII part): after stripping
  whitespace, an optional sign, then \<open>inf\<close>, \<open>infinity\<close> or \<open>nan\<close> in any case, or a
  decimal number with an optional exponent. A digit part is digits with single
  underscores between them. \<open>None\<close> is the \<open>ValueError\<close>.
\<close>

fun digitpart_tail :: "string \<Rightarrow> bool" where
  "digitpart_tail [] = True"
| "digitpart_tail (c # cs) =
     (if is_digit c then digitpart_tail cs
      else if c = CHR ''_'' then
        (case cs of [] \<Rightarrow> False | d # ds \<Rightarrow> is_digit d \<and> digitpart_tail ds)
      else False)"

definition digitpart :: "string \<Rightarrow> bool" where
  "digitpart s = (case s of [] \<Rightarrow> False | c # cs \<Rightarrow> is_digit c \<and> digitpart_tail cs)"

definition digits_value :: "string \<Rightarrow> int" where
  "digits_value s = int_of_digits (filter is_digit s)"

definition parse_mantissa :: "string \<Rightarrow> rat option" where
  "parse_mantissa m =
     (let ip = takeWhile (\<lambda>c. c \<noteq> CHR ''.'') m;
          r = dropWhile (\<lambda>c. c \<noteq> CHR ''.'') m
      in if r = [] then (if digitpart ip then Some (of_int (digits_value ip)) else None)
         else let fp = tl r in
           if (ip = [] \<or> digitpart ip) \<and> (fp = [] \<or> digitpart fp) \<and> \<not> (ip = [] \<and> fp = [])
           then Some (of_int (digits_value ip)
                      + of_int (digits_value fp) / 10 ^ length (filter is_digit fp))
           else None)"

definition is_e :: "char \<Rightarrow> bool" where
  "is_e c = (c = CHR ''e'' \<or> c = CHR ''E'')"

definition parse_exponent :: "string \<Rightarrow> int option" where
  "parse_exponent x =
     (case x of
        [] \<Rightarrow> None
      | c # cs \<Rightarrow>
          if c = CHR ''-'' then (if digitpart cs then Some (- digits_value cs) else None)
          else if c = CHR ''+'' then (if digitpart cs then Some (digits_value cs) else None)
          else (if digitpart x then Some (digits_value x) else None))"

definition scale10 :: "rat \<Rightarrow> int \<Rightarrow> rat" where
  "scale10 m e = (if 0 \<le> e then m * 10 ^ nat e else m / 10 ^ nat (- e))"

definition parse_number :: "string \<Rightarrow> rat option" where
  "parse_number u =
     (let m = takeWhile (\<lambda>c. \<not> is_e c) u;
          r = dropWhile (\<lambda>c. \<not> is_e c) u
      in case parse_mantissa m of
           None \<Rightarrow> None
         | Some q \<Rightarrow>
             if r = [] then Some q
             else (case parse_exponent (tl r) of None \<Rightarrow> None | Some e \<Rightarrow> Some (scale10 q e)))"

text \<open>
  The range of binary64: a decimal that rounds to \<open>2 ^ 1024\<close> or beyond (from
  \<open>2 ^ 1024 - 2 ^ 970\<close> on) reads as an infinity, and one that rounds to zero (at most
  \<open>1 / 2 ^ 1075\<close>, half of the least positive float) reads as zero. The tests are made on
  the numerator and the denominator of the value; the power \<open>2 ^ 1024\<close> is written as
  ten squarings of 2, and the two numerals are \<open>2 ^ 54\<close> and \<open>2 ^ 51\<close>.
\<close>

definition square :: "int \<Rightarrow> int" where
  "square x = x * x"

definition two_pow_1024 :: int where
  "two_pow_1024 =
     square (square (square (square (square (square (square (square (square (square 2)))))))))"

definition overflow_bound :: int where
  "overflow_bound = two_pow_1024 - two_pow_1024 div 18014398509481984"

definition underflow_scale :: int where
  "underflow_scale = two_pow_1024 * 2251799813685248"

definition finite_float :: "rat \<Rightarrow> pyfloat" where
  "finite_float q =
     (case quotient_of q of (n, d) \<Rightarrow>
        if overflow_bound * d \<le> \<bar>n\<bar> then (if n < 0 then NInf else PInf)
        else if \<bar>n\<bar> * underflow_scale \<le> d then Fin 0
        else Fin q)"

definition py_float :: "string \<Rightarrow> pyfloat option" where
  "py_float s =
     (let t = strip s;
          neg = (case t of [] \<Rightarrow> False | c # _ \<Rightarrow> c = CHR ''-'');
          u = (case t of [] \<Rightarrow> [] | c # cs \<Rightarrow> if c = CHR ''-'' \<or> c = CHR ''+'' then cs else t);
          lu = lower u
      in if lu = ''inf'' \<or> lu = ''infinity'' then Some (if neg then NInf else PInf)
         else if lu = ''nan'' then Some NaN
         else (case parse_number u of
                 None \<Rightarrow> None
               | Some q \<Rightarrow> Some (finite_float (if neg then - q else q))))"

section \<open>The amount parser of the text extractor (parser/pdf_parser.py)\<close>

text \<open>
  \<open>re.sub(r'[^\d.,-]', '', amount_str)\<close> keeps digits, dots, commas and minus signs; the
  commas are removed next. The sign flag looks at the raw string.
\<close>

definition cleaned :: "string \<Rightarrow> string" where
  "cleaned amount_str =
     filter (\<lambda>c. c \<noteq> CHR '','')
       (filter (\<lambda>c. is_digit c \<or> c = CHR ''.'' \<or> c = CHR '','' \<or> c = CHR ''-'') amount_str)"

definition parse_amount :: "string \<Rightarrow> pyfloat" where
  "parse_amount amount_str =
     (let is_negative = (CHR ''-'' \<in> set amount_str \<or> CHR ''('' \<in> set amount_str)
      in case py_float (cleaned amount_str) of
           Some amount \<Rightarrow> if is_negative then fneg amount else amount
         | None \<Rightarrow> Fin 0)"

section \<open>Dates and \<open>datetime.strptime\<close>\<close>

record date =
  year :: int
  month :: int
  day :: int

definition is_leap :: "int \<Rightarrow> bool" where
  "is_leap y = (y mod 4 = 0 \<and> (y mod 100 \<noteq> 0 \<or> y mod 400 = 0))"

definition days_in_month :: "int \<Rightarrow> int \<Rightarrow> int" where
  "days_in_month y m =
     (if m = 2 then (if is_leap y then 29 else 28)
      else if m = 4 \<or> m = 6 \<or> m = 9 \<or> m = 11 then 30 else 31)"

definition valid_date :: "int \<Rightarrow> int \<Rightarrow> int \<Rightarrow> bool" where
  "valid_date y m d = (1 \<le> y \<and> y \<le> 9999 \<and> 1 \<le> m \<and> m \<le> 12 \<and> 1 \<le> d \<and> d \<le> days_in_month y m)"

text \<open>
  \<open>strptime\<close> turns the format into a regular expression and matches the start of the
  data with it: \<open>%m\<close> is \<open>1[0-2]|0[1-9]|[1-9]\<close>, \<open>%d\<close> is \<open>3[01]|[12]\d|0[1-9]|[1-9]| [1-9]\<close>,
  \<open>%Y\<close> is four digits, \<open>%y\<close> two; every other character stands for itself, letters in
  either case. Only these four directives and \<open>%%\<close> are modelled (the source's formats use
  no other, no directive twice and no whitespace). The match is the first one in the
  order a backtracking matcher finds them; data left over after it is an error, and so
  is a day the month does not have. Without a year directive the year is 1900.
  \<open>None\<close> is the \<open>ValueError\<close>.
\<close>

datatype fmt_item = Directive char | Literal char

fun parse_format :: "string \<Rightarrow> fmt_item list option" where
  "parse_format [] = Some []"
| "parse_format [c] = (if c = CHR ''%'' then None else Some [Literal c])"
| "parse_format (c # k # cs) =
     (if c = CHR ''%'' then
        (if k = CHR ''%'' then map_option (Cons (Literal k)) (parse_format cs)
         else if k \<in> set ''mdYy'' then map_option (Cons (Directive k)) (parse_format cs)
         else None)
      else map_option (Cons (Literal c)) (parse_format (k # cs)))"

record tm =
  tm_year :: "int option"
  tm_month :: int
  tm_day :: int

definition digit_in :: "int \<Rightarrow> int \<Rightarrow> char \<Rightarrow> bool" where
  "digit_in lo hi c = (is_digit c \<and> lo \<le> digit_val c \<and> digit_val c \<le> hi)"

text \<open>One alternative of a directive: the characters it takes and the number it reads.\<close>

definition two_chars :: "(char \<Rightarrow> bool) \<Rightarrow> (char \<Rightarrow> bool) \<Rightarrow> string \<Rightarrow> (int \<times> string) list" where
  "two_chars p q s =
     (case s of
        a # b # r \<Rightarrow> if p a \<and> q b then [(int_of_digits (filter is_digit [a, b]), r)] else []
      | _ \<Rightarrow> [])"

definition one_char :: "(char \<Rightarrow> bool) \<Rightarrow> string \<Rightarrow> (int \<times> string) list" where
  "one_char p s = (case s of a # r \<Rightarrow> if p a then [(digit_val a, r)] else [] | _ \<Rightarrow> [])"

definition four_digits :: "string \<Rightarrow> (int \<times> string) list" where
  "four_digits s =
     (case s of
        a # b # c # d # r \<Rightarrow>
          if is_digit a \<and> is_digit b \<and> is_digit c \<and> is_digit d
          then [(int_of_digits [a, b, c, d], r)] else []
      | _ \<Rightarrow> [])"

definition alternatives :: "char \<Rightarrow> string \<Rightarrow> (int \<times> string) list" where
  "alternatives k s =
     (if k = CHR ''m'' then
        two_chars (digit_in 1 1) (digit_in 0 2) s @ two_chars (digit_in 0 0) (digit_in 1 9) s
        @ one_char (digit_in 1 9) s
      else if k = CHR ''d'' then
        two_chars (digit_in 3 3) (digit_in 0 1) s @ two_chars (digit_in 1 2) is_digit s
        @ two_chars (digit_in 0 0) (digit_in 1 9) s @ one_char (digit_in 1 9) s
        @ two_chars (\<lambda>c. c = CHR '' '') (digit_in 1 9) s
      else if k = CHR ''Y'' then four_digits s
      else two_chars is_digit is_digit s)"

definition set_field :: "char \<Rightarrow> int \<Rightarrow> tm \<Rightarrow> tm" where
  "set_field k v t =
     (if k = CHR ''m'' then t\<lparr>tm_month := v\<rparr>
      else if k = CHR ''d'' then t\<lparr>tm_day := v\<rparr>
      else if k = CHR ''Y'' then t\<lparr>tm_year := Some v\<rparr>
      else t\<lparr>tm_year := Some (if v \<le> 68 then v + 2000 else v + 1900)\<rparr>)"

fun first_some :: "('a \<Rightarrow> 'b option) \<Rightarrow> 'a list \<Rightarrow> 'b option" where
  "first_some f [] = None"
| "first_some f (x # xs) = (case f x of Some y \<Rightarrow> Some y | None \<Rightarrow> first_some f xs)"

fun match_items :: "fmt_item list \<Rightarrow> string \<Rightarrow> tm \<Rightarrow> (tm \<times> string) option" where
  "match_items [] s t = Some (t, s)"
| "match_items (Literal c # items) s t =
     (case s of
        [] \<Rightarrow> None
      | x # xs \<Rightarrow> if lower_char x = lower_char c then match_items items xs t else None)"
| "match_items (Directive k # items) s t =
     first_some (\<lambda>(v, rest). match_items items rest (set_field k v t)) (alternatives k s)"

definition strptime :: "string \<Rightarrow> string \<Rightarrow> date option" where
  "strptime data fmt =
     (case parse_format fmt of
        None \<Rightarrow> None
      | Some items \<Rightarrow>
          (case match_items items data \<lparr>tm_year = None, tm_month = 1, tm_day = 1\<rparr> of
             None \<Rightarrow> None
           | Some (t, rest) \<Rightarrow>
               if rest \<noteq> [] then None
               else let y = (case tm_year t of None \<Rightarrow> 1900 | Some y \<Rightarrow> y) in
                 if valid_date y (tm_month t) (tm_day t)
                 then Some \<lparr>year = y, month = tm_month t, day = tm_day t\<rparr>
                 else None))"

text \<open>\<open>str(n)\<close> for an integer: the decimal digits, after a minus sign when it is negative.\<close>

function str_digits :: "int \<Rightarrow> string" where
  "str_digits n = (if n < 10 then [digit_char n] else str_digits (n div 10) @ [digit_char (n mod 10)])"
  by pat_completeness auto
termination
  by (relation "measure nat") auto

declare str_digits.simps [simp del]

definition str_int :: "int \<Rightarrow> string" where
  "str_int n = (if n < 0 then CHR ''-'' # str_digits (- n) else str_digits n)"

section \<open>The transaction patterns of the text extractor\<close>

text \<open>
  The regular expressions of the source are sequences of quantified character classes,
  in three capture groups separated by \<open>\s+\<close>. An item of a pattern is the number of its
  group (0 outside the groups) and an atom: a class repeated between a minimum and an
  optional maximum number of times, greedily or lazily, or an optional literal.
  \<open>match_from\<close> is the backtracking matcher at one position: each atom tries its
  repetition counts in order of preference and keeps the first for which the rest of the
  pattern matches.
\<close>

datatype cclass = Digit | Space | NotNewline | OneOf string | DigitOr string

fun in_class :: "cclass \<Rightarrow> char \<Rightarrow> bool" where
  "in_class Digit c = is_digit c"
| "in_class Space c = is_space c"
| "in_class NotNewline c = (c \<noteq> CHR 0x0A)"
| "in_class (OneOf cs) c = (c \<in> set cs)"
| "in_class (DigitOr cs) c = (is_digit c \<or> c \<in> set cs)"

datatype atom = Rep cclass nat "nat option" bool | OptStr string

type_synonym pattern = "(nat \<times> atom) list"

fun candidates :: "atom \<Rightarrow> string \<Rightarrow> nat list" where
  "candidates (Rep cls lo hi greedy) s =
     (let avail = length (takeWhile (in_class cls) s);
          top = (case hi of None \<Rightarrow> avail | Some h \<Rightarrow> min h avail)
      in if greedy then rev [lo..<Suc top] else [lo..<Suc top])"
| "candidates (OptStr lit) s = (if prefix lit s then [length lit, 0] else [0])"

fun match_from :: "pattern \<Rightarrow> string \<Rightarrow> (nat \<times> string) list option" where
  "match_from [] s = Some []"
| "match_from ((g, a) # items) s =
     first_some (\<lambda>n. map_option (Cons (g, take n s)) (match_from items (drop n s)))
       (candidates a s)"

definition group_text :: "nat \<Rightarrow> (nat \<times> string) list \<Rightarrow> string" where
  "group_text k pieces = concat (map snd (filter (\<lambda>(g, _). g = k) pieces))"

definition matched_length :: "(nat \<times> string) list \<Rightarrow> nat" where
  "matched_length pieces = length (concat (map snd pieces))"

text \<open>
  \<open>re.findall\<close> with three groups: the matches from left to right, each search starting
  where the previous match ended (one character further after an empty match).
\<close>

fun findall :: "pattern \<Rightarrow> string \<Rightarrow> (string \<times> string \<times> string) list" where
  "findall p [] =
     (case match_from p [] of
        None \<Rightarrow> []
      | Some pieces \<Rightarrow> [(group_text 1 pieces, group_text 2 pieces, group_text 3 pieces)])"
| "findall p (c # cs) =
     (case match_from p (c # cs) of
        None \<Rightarrow> findall p cs
      | Some pieces \<Rightarrow>
          (group_text 1 pieces, group_text 2 pieces, group_text 3 pieces)
            # findall p (drop (matched_length pieces - 1) cs))"

definition digits :: "nat \<Rightarrow> nat \<Rightarrow> nat \<Rightarrow> nat \<times> atom" where
  "digits g lo hi = (g, Rep Digit lo (Some hi) True)"

definition lit :: "nat \<Rightarrow> string \<Rightarrow> nat \<times> atom" where
  "lit g cs = (g, Rep (OneOf cs) 1 (Some 1) True)"

definition spaces :: "nat \<times> atom" where
  "spaces = (0, Rep Space 1 None True)"

text \<open>\<open>\s+(.+?)\s+\<close>\<close>

definition description_part :: pattern where
  "description_part = [spaces, (2, Rep NotNewline 1 None False), spaces]"

text \<open>\<open>(-?\$?[\d,]+\.?\d*)\<close>\<close>

definition dollar_amount :: pattern where
  "dollar_amount =
     [(3, Rep (OneOf ''-'') 0 (Some 1) True), (3, Rep (OneOf ''$'') 0 (Some 1) True),
      (3, Rep (DigitOr '','') 1 None True), (3, Rep (OneOf ''.'') 0 (Some 1) True),
      (3, Rep Digit 0 None True)]"

text \<open>The rupee sign, U+20B9, in UTF-8.\<close>

definition rupee :: string where
  "rupee = [CHR 0xE2, CHR 0x82, CHR 0xB9]"

text \<open>The same with an optional rupee sign in the place of the optional dollar sign.\<close>

definition rupee_amount :: pattern where
  "rupee_amount =
     [(3, Rep (OneOf ''-'') 0 (Some 1) True), (3, OptStr rupee),
      (3, Rep (DigitOr '','') 1 None True), (3, Rep (OneOf ''.'') 0 (Some 1) True),
      (3, Rep Digit 0 None True)]"

text \<open>\<open>(\d{2}/\d{2})\<close> and \<open>(\d{2}/\d{2}/\d{4})\<close>, with the separator as a parameter\<close>

definition month_day :: pattern where
  "month_day = [digits 1 2 2, lit 1 ''/'', digits 1 2 2]"

definition full_date :: "string \<Rightarrow> pattern" where
  "full_date sep = [digits 1 2 2, lit 1 sep, digits 1 2 2, lit 1 sep, digits 1 4 4]"

text \<open>\<open>bank_patterns\<close>: the transaction pattern and the date format of each bank.\<close>

definition bank_patterns :: "(string \<times> pattern \<times> string) list" where
  "bank_patterns =
     [(''chase'', month_day @ description_part @ dollar_amount, ''%m/%d''),
      (''wells_fargo'', full_date ''/'' @ description_part @ dollar_amount, ''%m/%d/%Y''),
      (''bank_of_america'', full_date ''/'' @ description_part @ dollar_amount, ''%m/%d/%Y''),
      (''citibank'', full_date ''/'' @ description_part @ dollar_amount, ''%m/%d/%Y''),
      (''hdfc'', full_date ''/'' @ description_part @ rupee_amount, ''%d/%m/%Y''),
      (''axis'', full_date ''-'' @ description_part @ rupee_amount, ''%d-%m-%Y'')]"

text \<open>
  The two generic patterns: \<open>(\d{1,2}[/-]\d{1,2}[/-]\d{2,4})\<close> and \<open>(\d{1,2}/\d{1,2})\<close>
  for the date, then description and amount as above.
\<close>

definition generic_patterns :: "pattern list" where
  "generic_patterns =
     [[digits 1 1 2, lit 1 ''/-'', digits 1 1 2, lit 1 ''/-'', digits 1 2 4]
        @ description_part @ dollar_amount,
      [digits 1 1 2, lit 1 ''/'', digits 1 1 2] @ description_part @ dollar_amount]"

section \<open>The text extractor (parser/pdf_parser.py)\<close>

text \<open>
  A transaction as the extractors build it: the dict with the keys \<open>date\<close>,
  \<open>description\<close>, \<open>amount\<close>, \<open>type\<close> and \<open>bank\<close>.
\<close>

record txn =
  tx_date :: date
  tx_description :: string
  tx_amount :: pyfloat
  tx_type :: string
  tx_bank :: string

definition detect_bank_from_pdf :: "string \<Rightarrow> string" where
  "detect_bank_from_pdf text =
     (let text_lower = lower text in
      if contains ''chase'' text_lower \<or> contains ''jpmorgan'' text_lower then ''chase''
      else if contains ''wells fargo'' text_lower then ''wells_fargo''
      else if contains ''bank of america'' text_lower then ''bank_of_america''
      else if contains ''citibank'' text_lower \<or> contains ''citi'' text_lower then ''citibank''
      else if contains ''hdfc'' text_lower then ''hdfc''
      else if contains ''axis'' text_lower then ''axis''
      else ''unknown'')"

text \<open>\<open>len(s.split(c))\<close> for a one-character separator.\<close>

definition split_len :: "char \<Rightarrow> string \<Rightarrow> nat" where
  "split_len c s = Suc (length (filter (\<lambda>x. x = c) s))"

text \<open>
  \<open>_parse_date_flexible\<close>: the formats in order; a \<open>ValueError\<close> of \<open>strptime\<close> moves on to
  the next one. \<open>current_year\<close> is \<open>datetime.now().year\<close>.
\<close>

definition date_formats_flexible :: "string list" where
  "date_formats_flexible =
     [''%m/%d/%Y'', ''%d/%m/%Y'', ''%Y-%m-%d'', ''%m-%d-%Y'', ''%d-%m-%Y'', ''%m/%d'', ''%d/%m'']"

definition try_format_flexible :: "int \<Rightarrow> string \<Rightarrow> string \<Rightarrow> date option" where
  "try_format_flexible current_year date_str fmt =
     (if split_len (CHR ''/'') date_str = 2 \<or> split_len (CHR ''-'') date_str = 2 then
        (if CHR ''/'' \<in> set fmt
         then strptime (date_str @ ''/'' @ str_int current_year) (fmt @ ''/'' @ str_int current_year)
         else strptime (date_str @ ''-'' @ str_int current_year) (fmt @ ''-'' @ str_int current_year))
      else strptime date_str fmt)"

definition parse_date_flexible :: "int \<Rightarrow> string \<Rightarrow> date option" where
  "parse_date_flexible current_year date_str =
     first_some (try_format_flexible current_year date_str) date_formats_flexible"

text \<open>The body of the loops over the matches; \<open>None\<close> is a match that is skipped.\<close>

definition make_txn :: "date \<Rightarrow> string \<Rightarrow> string \<Rightarrow> string \<Rightarrow> txn" where
  "make_txn d description amount_str bank =
     (let amount = parse_amount amount_str;
          trans_type = (if flt0 amount then ''debit'' else ''credit'')
      in \<lparr>tx_date = d, tx_description = strip description, tx_amount = fabs amount,
          tx_type = trans_type, tx_bank = bank\<rparr>)"

definition generic_match :: "int \<Rightarrow> string \<times> string \<times> string \<Rightarrow> txn option" where
  "generic_match current_year m =
     (case m of (date_str, description, amount_str) \<Rightarrow>
        (case parse_date_flexible current_year date_str of
           None \<Rightarrow> None
         | Some d \<Rightarrow> Some (make_txn d description amount_str ''unknown'')))"

definition parse_generic_pdf :: "int \<Rightarrow> string \<Rightarrow> txn list" where
  "parse_generic_pdf current_year text =
     concat (map (\<lambda>p. List.map_filter (generic_match current_year) (findall p text))
                 generic_patterns)"

definition bank_specific_match ::
  "int \<Rightarrow> string \<Rightarrow> string \<Rightarrow> string \<times> string \<times> string \<Rightarrow> txn option" where
  "bank_specific_match current_year bank_format date_format m =
     (case m of (date_str, description, amount_str) \<Rightarrow>
        (case (if split_len (CHR ''/'') date_str = 2
               then strptime (date_str @ ''/'' @ str_int current_year)
                             (date_format @ ''/'' @ str_int current_year)
               else strptime date_str date_format) of
           None \<Rightarrow> None
         | Some d \<Rightarrow> Some (make_txn d description amount_str bank_format)))"

definition parse_bank_specific_pdf :: "int \<Rightarrow> string \<Rightarrow> string \<Rightarrow> txn list" where
  "parse_bank_specific_pdf current_year text bank_format =
     (case map_of bank_patterns bank_format of
        None \<Rightarrow> parse_generic_pdf current_year text
      | Some (p, date_format) \<Rightarrow>
          List.map_filter (bank_specific_match current_year bank_format date_format)
            (findall p text))"

text \<open>
  \<open>parse_pdf\<close> after the page texts have been read and joined (each followed by a
  newline): detect the bank, then extract.
\<close>

definition parse_pdf_text :: "int \<Rightarrow> string \<Rightarrow> txn list" where
  "parse_pdf_text current_year full_text =
     (let bank_format = detect_bank_from_pdf full_text in
      if bank_format = ''unknown'' then parse_generic_pdf current_year full_text
      else parse_bank_specific_pdf current_year full_text bank_format)"

section \<open>The tabular extractor (parser/csv_parser.py)\<close>

text \<open>
  The data frame that \<open>pandas.read_csv\<close> returns is seen by the source only through
  \<open>pd.isna\<close>/\<open>pd.notna\<close>, \<open>str\<close>, \<open>row[col]\<close> and \<open>col in row.index\<close>. A cell is
  therefore \<open>None\<close> when it is missing (NaN) and \<open>Some s\<close> with \<open>s = str(val)\<close> otherwise; a
  row pairs the column names with the cells.
\<close>

type_synonym cell = "string option"
type_synonym row = "(string \<times> cell) list"

record dataframe =
  columns :: "string list"
  data :: "cell list list"

definition iterrows :: "dataframe \<Rightarrow> row list" where
  "iterrows df = map (zip (columns df)) (data df)"

definition in_index :: "string \<Rightarrow> row \<Rightarrow> bool" where
  "in_index col r = (col \<in> set (map fst r))"

text \<open>\<open>str(val)\<close>; a missing value prints as \<open>nan\<close>.\<close>

definition str_cell :: "cell \<Rightarrow> string" where
  "str_cell val = (case val of None \<Rightarrow> ''nan'' | Some s \<Rightarrow> s)"

text \<open>\<open>s.replace(sub, '')\<close>\<close>

fun remove_all :: "string \<Rightarrow> string \<Rightarrow> string" where
  "remove_all sub [] = []"
| "remove_all sub (c # cs) =
     (if sub \<noteq> [] \<and> prefix sub (c # cs) then remove_all sub (drop (length sub - 1) cs)
      else c # remove_all sub cs)"

text \<open>\<open>pd.notna(val) and str(val).strip() != ''\<close>\<close>

definition has_value :: "cell \<Rightarrow> bool" where
  "has_value val = (val \<noteq> None \<and> strip (str_cell val) \<noteq> [])"

text \<open>
  \<open>float\<close> of \<open>str(val)\<close> after \<open>replace(',', '')\<close>, \<open>replace('$', '')\<close> and the same for the
  rupee sign.
\<close>

definition cell_float :: "cell \<Rightarrow> pyfloat option" where
  "cell_float val = py_float (remove_all rupee (remove_all ''$'' (remove_all '','' (str_cell val))))"

text \<open>The column names of a bank: for the date, the description, the amount and the type.\<close>

record column_mapping =
  date_names :: "string list"
  description_names :: "string list"
  amount_names :: "string list"
  type_names :: "string list"

definition bank_column_mappings :: "(string \<times> column_mapping) list" where
  "bank_column_mappings =
     [(''chase'', \<lparr>date_names = [''Transaction Date'', ''Date''], description_names = [''Description''],
                   amount_names = [''Amount''], type_names = [''Type'']\<rparr>),
      (''wells_fargo'', \<lparr>date_names = [''Date''], description_names = [''Description''],
                   amount_names = [''Amount''], type_names = [''Type'']\<rparr>),
      (''bank_of_america'', \<lparr>date_names = [''Date''], description_names = [''Description''],
                   amount_names = [''Amount''], type_names = [''Type'']\<rparr>),
      (''citibank'', \<lparr>date_names = [''Date''], description_names = [''Description''],
                   amount_names = [''Debit'', ''Credit''], type_names = [''Type'']\<rparr>),
      (''hdfc'', \<lparr>date_names = [''Date''], description_names = [''Narration'', ''Description''],
                   amount_names = [''Debit'', ''Credit'', ''Amount''], type_names = [''Type'']\<rparr>),
      (''axis'', \<lparr>date_names = [''Tran Date'', ''Date''],
                   description_names = [''Particulars'', ''Description''],
                   amount_names = [''Debit'', ''Credit'', ''Amount''], type_names = [''Type'']\<rparr>)]"

text \<open>\<open>self.bank_column_mappings.get(bank_format, {})\<close> with \<open>.get(key, [])\<close> on the result.\<close>

definition mapping_of :: "string \<Rightarrow> column_mapping" where
  "mapping_of bank_format =
     (case map_of bank_column_mappings bank_format of
        Some m \<Rightarrow> m
      | None \<Rightarrow> \<lparr>date_names = [], description_names = [], amount_names = [], type_names = []\<rparr>)"

text \<open>\<open>sep.join(xs)\<close>\<close>

fun join :: "string \<Rightarrow> string list \<Rightarrow> string" where
  "join sep [] = []"
| "join sep [x] = x"
| "join sep (x # y # ys) = x @ sep @ join sep (y # ys)"

definition detect_bank_from_columns :: "string list \<Rightarrow> string" where
  "detect_bank_from_columns cols =
     (let columns_lower = map lower cols;
          columns_str = join '' '' columns_lower in
      if contains ''transaction date'' columns_str \<or> list_ex (contains ''chase'') columns_lower
        then ''chase''
      else if list_ex (contains ''wells'') columns_lower then ''wells_fargo''
      else if list_ex (\<lambda>col. contains ''bofa'' col \<or> contains ''bankofamerica'' col) columns_lower
        then ''bank_of_america''
      else if list_ex (contains ''citi'') columns_lower then ''citibank''
      else if contains ''narration'' columns_str \<or> list_ex (contains ''hdfc'') columns_lower
        then ''hdfc''
      else if contains ''particulars'' columns_str \<or> contains ''tran date'' columns_str
        then ''axis''
      else ''unknown'')"

definition find_column :: "row \<Rightarrow> string list \<Rightarrow> string option" where
  "find_column r possible_names = List.find (\<lambda>name. in_index name r) possible_names"

text \<open>\<open>_parse_date\<close>: the first format that parses the stripped text of the cell.\<close>

definition csv_date_formats :: "string list" where
  "csv_date_formats =
     [''%Y-%m-%d'', ''%m/%d/%Y'', ''%d/%m/%Y'', ''%m-%d-%Y'', ''%d-%m-%Y'', ''%Y/%m/%d'',
      ''%m/%d/%y'', ''%d/%m/%y'', ''%y-%m-%d'']"

definition parse_date :: "cell \<Rightarrow> date option" where
  "parse_date val =
     (case val of
        None \<Rightarrow> None
      | Some s \<Rightarrow> first_some (strptime (strip s)) csv_date_formats)"

text \<open>\<open>abs(amount), 'debit' if amount < 0 else 'credit'\<close>\<close>

definition signed_amount :: "pyfloat \<Rightarrow> pyfloat option \<times> string" where
  "signed_amount amount = (Some (fabs amount), if flt0 amount then ''debit'' else ''credit'')"

text \<open>
  The first loop of \<open>_extract_amount_and_type\<close>, for the banks with separate debit and
  credit columns: it either returns from the function (\<open>Inl\<close>) at a column that is neither
  a debit nor a credit column, or ends with the values it has seen (\<open>Inr\<close>).
\<close>

fun debit_credit_loop ::
  "string list \<Rightarrow> row \<Rightarrow> pyfloat option \<Rightarrow> pyfloat option
   \<Rightarrow> (pyfloat option \<times> string) + (pyfloat option \<times> pyfloat option)" where
  "debit_credit_loop [] r debit_val credit_val = Inr (debit_val, credit_val)"
| "debit_credit_loop (col # cols) r debit_val credit_val =
     (case map_of r col of
        None \<Rightarrow> debit_credit_loop cols r debit_val credit_val
      | Some val \<Rightarrow>
          if has_value val then
            (case cell_float val of
               None \<Rightarrow> debit_credit_loop cols r debit_val credit_val
             | Some amount \<Rightarrow>
                 if contains ''debit'' (lower col)
                   then debit_credit_loop cols r (Some amount) credit_val
                 else if contains ''credit'' (lower col)
                   then debit_credit_loop cols r debit_val (Some amount)
                 else Inl (signed_amount amount))
          else debit_credit_loop cols r debit_val credit_val)"

text \<open>The second loop: the first amount column with a value that parses.\<close>

fun single_amount_loop :: "string list \<Rightarrow> row \<Rightarrow> pyfloat option \<times> string" where
  "single_amount_loop [] r = (None, ''debit'')"
| "single_amount_loop (col # cols) r =
     (case map_of r col of
        None \<Rightarrow> single_amount_loop cols r
      | Some val \<Rightarrow>
          if has_value val then
            (case cell_float val of
               None \<Rightarrow> single_amount_loop cols r
             | Some amount \<Rightarrow> signed_amount amount)
          else single_amount_loop cols r)"

text \<open>
  The number that the loops read in a column of a row: none when the row has no such
  column, when the cell is missing or blank, or when its text is not a number.
\<close>

definition cell_number :: "row \<Rightarrow> string \<Rightarrow> pyfloat option" where
  "cell_number r col =
     (case map_of r col of
        None \<Rightarrow> None
      | Some val \<Rightarrow> if has_value val then cell_float val else None)"

definition positive :: "pyfloat option \<Rightarrow> bool" where
  "positive v = (case v of None \<Rightarrow> False | Some x \<Rightarrow> fgt0 x)"

definition extract_amount_and_type :: "row \<Rightarrow> column_mapping \<Rightarrow> string \<Rightarrow> pyfloat option \<times> string" where
  "extract_amount_and_type r cm bank_format =
     (let amount_cols = amount_names cm in
      if bank_format \<in> set [''citibank'', ''hdfc'', ''axis''] then
        (case debit_credit_loop amount_cols r None None of
           Inl result \<Rightarrow> result
         | Inr (debit_val, credit_val) \<Rightarrow>
             if positive debit_val then (debit_val, ''debit'')
             else if positive credit_val then (credit_val, ''credit'')
             else single_amount_loop amount_cols r)
      else single_amount_loop amount_cols r)"

text \<open>
  The body of the loop of \<open>_parse_bank_specific_csv\<close>; \<open>None\<close> is a row that is skipped.
  The guard \<open>amount is not None and amount != 0\<close> is the last test. \<open>lookup\<close> is \<open>row[col]\<close>
  for a column that \<open>_find_column\<close> has found in the index of the row.
\<close>

definition lookup :: "row \<Rightarrow> string \<Rightarrow> cell" where
  "lookup r col = (case map_of r col of Some val \<Rightarrow> val | None \<Rightarrow> None)"

definition bank_specific_row :: "string \<Rightarrow> row \<Rightarrow> txn option" where
  "bank_specific_row bank_format r =
     (let cm = mapping_of bank_format in
      case find_column r (date_names cm) of
        None \<Rightarrow> None
      | Some date_col \<Rightarrow>
          (case parse_date (lookup r date_col) of
             None \<Rightarrow> None
           | Some d \<Rightarrow>
               let description =
                     (case find_column r (description_names cm) of
                        None \<Rightarrow> ''Unknown''
                      | Some desc_col \<Rightarrow> str_cell (lookup r desc_col))
               in (case extract_amount_and_type r cm bank_format of
                     (None, trans_type) \<Rightarrow> None
                   | (Some amount, trans_type) \<Rightarrow>
                       if fne0 amount
                       then Some \<lparr>tx_date = d, tx_description = strip description,
                                   tx_amount = fabs amount, tx_type = trans_type,
                                   tx_bank = bank_format\<rparr>
                       else None)))"

definition parse_bank_specific_csv :: "dataframe \<Rightarrow> string \<Rightarrow> txn list" where
  "parse_bank_specific_csv df bank_format =
     List.map_filter (bank_specific_row bank_format) (iterrows df)"

text \<open>
  The generic extractor. Its amount loop stops at the first column whose value parses;
  looking up a column that the row does not have raises, and the row is skipped.
\<close>

definition any_word :: "string list \<Rightarrow> string \<Rightarrow> bool" where
  "any_word ws col = list_ex (\<lambda>w. contains w (lower col)) ws"

fun generic_amount_loop :: "string list \<Rightarrow> row \<Rightarrow> (pyfloat option \<times> string) option" where
  "generic_amount_loop [] r = Some (None, ''debit'')"
| "generic_amount_loop (amount_col # cols) r =
     (case map_of r amount_col of
        None \<Rightarrow> None
      | Some val \<Rightarrow>
          if has_value val then
            (case cell_float val of
               None \<Rightarrow> generic_amount_loop cols r
             | Some amount \<Rightarrow>
                 Some (Some amount,
                       if contains ''credit'' (lower amount_col) then ''credit''
                       else if fgt0 amount \<and> \<not> contains ''debit'' (lower amount_col) then ''credit''
                       else ''debit''))
          else generic_amount_loop cols r)"

definition generic_row :: "string \<Rightarrow> string \<Rightarrow> string list \<Rightarrow> row \<Rightarrow> txn option" where
  "generic_row date_col desc_col amount_cols r =
     (case map_of r date_col of
        None \<Rightarrow> None
      | Some date_val \<Rightarrow>
          (case parse_date date_val of
             None \<Rightarrow> None
           | Some d \<Rightarrow>
               (case map_of r desc_col of
                  None \<Rightarrow> None
                | Some desc_val \<Rightarrow>
                    (case generic_amount_loop amount_cols r of
                       None \<Rightarrow> None
                     | Some (None, trans_type) \<Rightarrow> None
                     | Some (Some amount, trans_type) \<Rightarrow>
                         if fne0 amount
                         then Some \<lparr>tx_date = d, tx_description = strip (str_cell desc_val),
                                     tx_amount = fabs amount, tx_type = trans_type,
                                     tx_bank = ''unknown''\<rparr>
                         else None))))"

text \<open>What the parsers raise, and what the store raises.\<close>

datatype error =
  UnsupportedFormat | ReadError | NoRequiredColumns | IntegrityError

text \<open>The three list comprehensions over \<open>df.columns\<close>.\<close>

definition date_cols :: "dataframe \<Rightarrow> string list" where
  "date_cols df = filter (any_word [''date'', ''time'']) (columns df)"

definition desc_cols :: "dataframe \<Rightarrow> string list" where
  "desc_cols df =
     filter (any_word [''description'', ''narration'', ''particulars'', ''memo'']) (columns df)"

definition amount_cols :: "dataframe \<Rightarrow> string list" where
  "amount_cols df = filter (any_word [''amount'', ''debit'', ''credit'']) (columns df)"

definition parse_generic_csv :: "dataframe \<Rightarrow> error + txn list" where
  "parse_generic_csv df =
     (if date_cols df = [] \<or> desc_cols df = [] \<or> amount_cols df = [] then Inl NoRequiredColumns
      else (case (date_cols df, desc_cols df) of
              (date_col # _, desc_col # _) \<Rightarrow>
                Inr (List.map_filter (generic_row date_col desc_col (amount_cols df)) (iterrows df))
            | _ \<Rightarrow> Inl NoRequiredColumns))"

text \<open>\<open>parse_csv\<close> once the bytes have been decoded and read into a data frame.\<close>

definition parse_csv_frame :: "dataframe \<Rightarrow> error + txn list" where
  "parse_csv_frame df =
     (let bank_format = detect_bank_from_columns (columns df) in
      if bank_format = ''unknown'' then parse_generic_csv df
      else Inr (parse_bank_specific_csv df bank_format))"

section \<open>SHA-256 (\<open>hashlib.sha256(...).hexdigest()\<close>)\<close>

text \<open>
  The hash function of FIPS 180-4 on a byte string, with the digest in lower-case hex.
  The round constants and the initial state of the standard are written in decimal.
\<close>

type_synonym w32 = "32 word"

definition sha_k :: "w32 list" where
  "sha_k =
    [1116352408, 1899447441, 3049323471, 3921009573, 961987163, 1508970993, 2453635748, 2870763221,
     3624381080, 310598401, 607225278, 1426881987, 1925078388, 2162078206, 2614888103, 3248222580,
     3835390401, 4022224774, 264347078, 604807628, 770255983, 1249150122, 1555081692, 1996064986,
     2554220882, 2821834349, 2952996808, 3210313671, 3336571891, 3584528711, 113926993, 338241895,
     666307205, 773529912, 1294757372, 1396182291, 1695183700, 1986661051, 2177026350, 2456956037,
     2730485921, 2820302411, 3259730800, 3345764771, 3516065817, 3600352804, 4094571909, 275423344,
     430227734, 506948616, 659060556, 883997877, 958139571, 1322822218, 1537002063, 1747873779,
     1955562222, 2024104815, 2227730452, 2361852424, 2428436474, 2756734187, 3204031479, 3329325298]"

type_synonym sha_state = "w32 \<times> w32 \<times> w32 \<times> w32 \<times> w32 \<times> w32 \<times> w32 \<times> w32"

definition sha_h0 :: sha_state where
  "sha_h0 = (1779033703, 3144134277, 1013904242, 2773480762,
             1359893119, 2600822924, 528734635, 1541459225)"

definition rotr :: "nat \<Rightarrow> w32 \<Rightarrow> w32" where
  "rotr n x = or (drop_bit n x) (push_bit (32 - n) x)"

definition small_sigma0 :: "w32 \<Rightarrow> w32" where
  "small_sigma0 x = xor (xor (rotr 7 x) (rotr 18 x)) (drop_bit 3 x)"

definition small_sigma1 :: "w32 \<Rightarrow> w32" where
  "small_sigma1 x = xor (xor (rotr 17 x) (rotr 19 x)) (drop_bit 10 x)"

definition big_sigma0 :: "w32 \<Rightarrow> w32" where
  "big_sigma0 x = xor (xor (rotr 2 x) (rotr 13 x)) (rotr 22 x)"

definition big_sigma1 :: "w32 \<Rightarrow> w32" where
  "big_sigma1 x = xor (xor (rotr 6 x) (rotr 11 x)) (rotr 25 x)"

definition ch :: "w32 \<Rightarrow> w32 \<Rightarrow> w32 \<Rightarrow> w32" where
  "ch x y z = xor (and x y) (and (not x) z)"

definition maj :: "w32 \<Rightarrow> w32 \<Rightarrow> w32 \<Rightarrow> w32" where
  "maj x y z = xor (xor (and x y) (and x z)) (and y z)"

text \<open>The padded message: the bytes, 0x80, zeros, and the length in bits in eight bytes.\<close>

definition be_bytes :: "nat \<Rightarrow> nat \<Rightarrow> nat list" where
  "be_bytes k n = map (\<lambda>i. (n div 256 ^ i) mod 256) (rev [0..<k])"

definition sha_pad :: "nat list \<Rightarrow> nat list" where
  "sha_pad bs =
     bs @ [128] @ replicate ((119 - length bs mod 64) mod 64) 0 @ be_bytes 8 (8 * length bs)"

fun be_words :: "nat list \<Rightarrow> w32 list" where
  "be_words [] = []"
| "be_words (a # rest) =
     (case rest of
        b # c # d # rest' \<Rightarrow> of_nat (((a * 256 + b) * 256 + c) * 256 + d) # be_words rest'
      | _ \<Rightarrow> [])"

text \<open>The message schedule, newest word first: sixteen words of the block, then 48 more.\<close>

fun schedule :: "nat \<Rightarrow> w32 list \<Rightarrow> w32 list" where
  "schedule 0 ws = ws"
| "schedule (Suc n) ws =
     schedule n ((small_sigma1 (ws ! 1) + ws ! 6 + small_sigma0 (ws ! 14) + ws ! 15) # ws)"

definition sha_round :: "sha_state \<Rightarrow> w32 \<times> w32 \<Rightarrow> sha_state" where
  "sha_round st kw =
     (case st of (a, b, c, d, e, f, g, h) \<Rightarrow>
        (case kw of (k, w) \<Rightarrow>
           let t1 = h + big_sigma1 e + ch e f g + k + w;
               t2 = big_sigma0 a + maj a b c
           in (t1 + t2, a, b, c, d + t1, e, f, g)))"

definition sha_add :: "sha_state \<Rightarrow> sha_state \<Rightarrow> sha_state" where
  "sha_add s t =
     (case s of (a, b, c, d, e, f, g, h) \<Rightarrow>
        (case t of (a', b', c', d', e', f', g', h') \<Rightarrow>
           (a + a', b + b', c + c', d + d', e + e', f + f', g + g', h + h')))"

definition sha_block :: "sha_state \<Rightarrow> w32 list \<Rightarrow> sha_state" where
  "sha_block st blk =
     sha_add st (foldl sha_round st (zip sha_k (rev (schedule 48 (rev blk)))))"

fun sha_blocks :: "nat \<Rightarrow> sha_state \<Rightarrow> w32 list \<Rightarrow> sha_state" where
  "sha_blocks 0 st ws = st"
| "sha_blocks (Suc n) st ws = sha_blocks n (sha_block st (take 16 ws)) (drop 16 ws)"

definition state_words :: "sha_state \<Rightarrow> w32 list" where
  "state_words st = (case st of (a, b, c, d, e, f, g, h) \<Rightarrow> [a, b, c, d, e, f, g, h])"

definition hex_digit :: "int \<Rightarrow> char" where
  "hex_digit d = (if d < 10 then char_of (48 + d) else char_of (87 + d))"

definition hex_word :: "w32 \<Rightarrow> string" where
  "hex_word w = map (\<lambda>i. hex_digit ((uint w div 16 ^ i) mod 16)) (rev [0..<8])"

definition sha256_hex :: "string \<Rightarrow> string" where
  "sha256_hex bytes =
     (let ws = be_words (sha_pad (map of_char bytes))
      in concat (map hex_word (state_words (sha_blocks (length ws div 16) sha_h0 ws))))"

section \<open>Printing a float and a date\<close>

text \<open>
  \<open>f"{amount}"\<close> is \<open>repr\<close>: the significant digits \<open>d1 d2 ...\<close> of the value and the position
  \<open>decpt\<close> of the decimal point (the value is \<open>0.d1d2... * 10 ^ decpt\<close>), printed in
  positional notation when \<open>-4 < decpt \<le> 16\<close> and with an exponent otherwise. Python
  prints the shortest digit string that reads back as the same float; the model prints
  the digits of the exact value, at most 17 of them.
\<close>

fun frac_digits :: "nat \<Rightarrow> int \<Rightarrow> int \<Rightarrow> string" where
  "frac_digits 0 r d = []"
| "frac_digits (Suc k) r d =
     (if r = 0 then [] else digit_char (10 * r div d) # frac_digits k (10 * r mod d) d)"

text \<open>For \<open>0 < n / d\<close>: the least \<open>k\<close> with \<open>n / d < 10 ^ k\<close>, as an integer.\<close>

definition decpt_of :: "int \<Rightarrow> int \<Rightarrow> int" where
  "decpt_of n d =
     (if d \<le> n then int (length (str_digits (n div d)))
      else - int (length (takeWhile (\<lambda>k. n * 10 ^ Suc k < d) [0..<length (str_digits d)])))"

definition sig_digits :: "int \<Rightarrow> int \<Rightarrow> int \<Rightarrow> string" where
  "sig_digits n d decpt =
     (if 0 \<le> decpt then frac_digits 17 n (d * 10 ^ nat decpt)
      else frac_digits 17 (n * 10 ^ nat (- decpt)) d)"

definition repr_positive :: "int \<Rightarrow> int \<Rightarrow> string" where
  "repr_positive n d =
     (let decpt = decpt_of n d;
          ds = sig_digits n d decpt;
          nd = int (length ds)
      in if - 4 < decpt \<and> decpt \<le> 16 then
           (if decpt \<le> 0 then ''0.'' @ replicate (nat (- decpt)) (CHR ''0'') @ ds
            else if decpt < nd then take (nat decpt) ds @ ''.'' @ drop (nat decpt) ds
            else ds @ replicate (nat (decpt - nd)) (CHR ''0'') @ ''.0'')
         else
           (let e = decpt - 1;
                es = str_digits \<bar>e\<bar>
            in take 1 ds @ (if 1 < nd then ''.'' @ drop 1 ds else [])
               @ ''e'' @ (if e < 0 then ''-'' else ''+'')
               @ (if length es < 2 then ''0'' @ es else es)))"

definition float_repr :: "pyfloat \<Rightarrow> string" where
  "float_repr x =
     (case x of
        PInf \<Rightarrow> ''inf''
      | NInf \<Rightarrow> ''-inf''
      | NaN \<Rightarrow> ''nan''
      | Fin q \<Rightarrow>
          (case quotient_of q of (n, d) \<Rightarrow>
             if n = 0 then ''0.0''
             else (if n < 0 then ''-'' else []) @ repr_positive \<bar>n\<bar> d))"

text \<open>
  \<open>date.strftime('%Y%m%d')\<close>: the year as the C library prints it, without padding (a year
  below 1000 has fewer than four digits), month and day in two digits.
\<close>

definition zero_pad :: "nat \<Rightarrow> string \<Rightarrow> string" where
  "zero_pad w s = replicate (w - length s) (CHR ''0'') @ s"

definition strftime_Ymd :: "date \<Rightarrow> string" where
  "strftime_Ymd d =
     str_int (year d) @ zero_pad 2 (str_int (month d)) @ zero_pad 2 (str_int (day d))"

section \<open>The dispatching parser (parser/bank_parser.py)\<close>

text \<open>
  An uploaded file is its name and its raw bytes. Reading the bytes is done by
  \<open>pandas.read_csv\<close> and by \<open>pdfplumber\<close>, outside the repository: the file carries what
  they return for its bytes, the data frame and the texts of the pages, \<open>None\<close> when the reader
  raises.
\<close>

record uploaded_file =
  name :: string
  content :: string
  csv_frame :: "dataframe option"
  pdf_pages :: "string list option"

text \<open>\<open>name.split('.')[-1].lower()\<close>\<close>

definition file_extension :: "string \<Rightarrow> string" where
  "file_extension n = lower (rev (takeWhile (\<lambda>c. c \<noteq> CHR ''.'') (rev n)))"

text \<open>The pages with a text, each followed by a newline.\<close>

definition full_text :: "string list \<Rightarrow> string" where
  "full_text pages = concat (map (\<lambda>page_text. page_text @ [CHR 0x0A]) (filter (\<lambda>t. t \<noteq> []) pages))"

definition parse_file :: "int \<Rightarrow> uploaded_file \<Rightarrow> error + txn list" where
  "parse_file current_year f =
     (let ext = file_extension (name f) in
      if ext = ''pdf'' then
        (case pdf_pages f of
           None \<Rightarrow> Inl ReadError
         | Some pages \<Rightarrow> Inr (parse_pdf_text current_year (full_text pages)))
      else if ext = ''csv'' then
        (case csv_frame f of None \<Rightarrow> Inl ReadError | Some df \<Rightarrow> parse_csv_frame df)
      else Inl UnsupportedFormat)"

definition detect_bank_format :: "string \<Rightarrow> string" where
  "detect_bank_format text =
     (let content_lower = lower text in
      if contains ''chase'' content_lower \<or> contains ''jpmorgan'' content_lower then ''chase''
      else if contains ''wells fargo'' content_lower \<or> contains ''wellsfargo'' content_lower
        then ''wells_fargo''
      else if contains ''bank of america'' content_lower \<or> contains ''bankofamerica'' content_lower
        then ''bank_of_america''
      else if contains ''citibank'' content_lower \<or> contains ''citi'' content_lower then ''citibank''
      else if contains ''hdfc'' content_lower then ''hdfc''
      else if contains ''axis'' content_lower then ''axis''
      else ''unknown'')"

text \<open>
  \<open>str(file_content)\<close> of a \<open>bytes\<close> value is its \<open>repr\<close>: \<open>b'...'\<close> with the quote, the
  backslash and the non-printable bytes escaped (double quotes are used when the bytes
  hold a single quote and no double quote).
\<close>

definition repr_byte :: "char \<Rightarrow> char \<Rightarrow> string" where
  "repr_byte quote c =
     (let n = (of_char c :: int) in
      if c = quote \<or> c = CHR 0x5C then [CHR 0x5C, c]
      else if n = 9 then [CHR 0x5C, CHR ''t'']
      else if n = 10 then [CHR 0x5C, CHR ''n'']
      else if n = 13 then [CHR 0x5C, CHR ''r'']
      else if n < 32 \<or> 127 \<le> n then [CHR 0x5C, CHR ''x'', hex_digit (n div 16), hex_digit (n mod 16)]
      else [c])"

definition bytes_repr :: "string \<Rightarrow> string" where
  "bytes_repr bs =
     (let quote = (if CHR 0x27 \<in> set bs \<and> CHR 0x22 \<notin> set bs then CHR 0x22 else CHR 0x27)
      in ''b'' @ [quote] @ concat (map (repr_byte quote) bs) @ [quote])"

section \<open>The store (database/models.py, database/operations.py)\<close>

record bank_account =
  ba_id :: nat
  ba_user_id :: nat
  ba_bank_name :: string
  ba_account_name :: string

record transaction =
  t_user_id :: nat
  t_bank_account_id :: nat
  t_date :: date
  t_description :: string
  t_amount :: pyfloat
  t_transaction_type :: string
  t_category :: string
  t_original_file_name :: string
  t_transaction_hash :: string

record uploaded_file_row =
  uf_user_id :: nat
  uf_file_name :: string
  uf_file_hash :: string
  uf_file_size :: nat
  uf_bank_detected :: string
  uf_transactions_count :: nat
  uf_processing_status :: string

record database =
  bank_accounts :: "bank_account list"
  transactions :: "transaction list"
  uploaded_files :: "uploaded_file_row list"

text \<open>A transaction after \<open>categorize_transactions\<close> has added the \<open>category\<close> column.\<close>

record cat_txn = txn +
  tx_category :: string

definition categorize_transactions :: "txn list \<Rightarrow> cat_txn list" where
  "categorize_transactions df =
     map (\<lambda>t. \<lparr>tx_date = tx_date t, tx_description = tx_description t, tx_amount = tx_amount t,
               tx_type = tx_type t, tx_bank = tx_bank t,
               tx_category = categorize_transaction (Some (tx_description t))\<rparr>) df"

definition create_or_get_account :: "database \<Rightarrow> nat \<Rightarrow> string \<Rightarrow> string \<Rightarrow> database \<times> bank_account" where
  "create_or_get_account db user_id bank_name account_name =
     (case List.find (\<lambda>a. ba_user_id a = user_id \<and> ba_bank_name a = bank_name
                            \<and> ba_account_name a = account_name) (bank_accounts db) of
        Some account \<Rightarrow> (db, account)
      | None \<Rightarrow>
          let account = \<lparr>ba_id = Suc (length (bank_accounts db)), ba_user_id = user_id,
                         ba_bank_name = bank_name, ba_account_name = account_name\<rparr>
          in (db\<lparr>bank_accounts := bank_accounts db @ [account]\<rparr>, account))"

text \<open>\<open>f"{date.strftime('%Y%m%d')}{amount}{description}"\<close> and its SHA-256.\<close>

definition hash_string :: "date \<Rightarrow> pyfloat \<Rightarrow> string \<Rightarrow> string" where
  "hash_string d amount description = strftime_Ymd d @ float_repr amount @ description"

definition generate_transaction_hash :: "date \<Rightarrow> pyfloat \<Rightarrow> string \<Rightarrow> string" where
  "generate_transaction_hash d amount description = sha256_hex (hash_string d amount description)"

text \<open>
  \<open>save_transactions\<close>: a row whose hash the user already has (rows added earlier in the
  same call included, the session flushing before each query) is counted as a duplicate.
\<close>

fun save_loop ::
  "cat_txn list \<Rightarrow> nat \<Rightarrow> nat \<Rightarrow> string \<Rightarrow> database \<Rightarrow> nat \<Rightarrow> nat \<Rightarrow> database \<times> nat \<times> nat" where
  "save_loop [] user_id bank_account_id file_name db saved_count duplicate_count =
     (db, saved_count, duplicate_count)"
| "save_loop (r # rows) user_id bank_account_id file_name db saved_count duplicate_count =
     (let tx_hash = generate_transaction_hash (tx_date r) (tx_amount r) (tx_description r) in
      if list_ex (\<lambda>t. t_user_id t = user_id \<and> t_transaction_hash t = tx_hash) (transactions db)
      then save_loop rows user_id bank_account_id file_name db saved_count (Suc duplicate_count)
      else save_loop rows user_id bank_account_id file_name
             (db\<lparr>transactions := transactions db @
                    [\<lparr>t_user_id = user_id, t_bank_account_id = bank_account_id,
                      t_date = tx_date r, t_description = tx_description r,
                      t_amount = tx_amount r, t_transaction_type = tx_type r,
                      t_category = tx_category r, t_original_file_name = file_name,
                      t_transaction_hash = tx_hash\<rparr>]\<rparr>)
             (Suc saved_count) duplicate_count)"

definition save_transactions ::
  "database \<Rightarrow> cat_txn list \<Rightarrow> nat \<Rightarrow> nat \<Rightarrow> string \<Rightarrow> database \<times> nat \<times> nat" where
  "save_transactions db transactions_df user_id bank_account_id file_name =
     save_loop transactions_df user_id bank_account_id file_name db 0 0"

definition generate_file_hash :: "string \<Rightarrow> string" where
  "generate_file_hash file_content = sha256_hex file_content"

definition is_file_processed :: "database \<Rightarrow> string \<Rightarrow> bool" where
  "is_file_processed db file_content =
     (let file_hash = generate_file_hash file_content
      in list_ex (\<lambda>r. uf_file_hash r = file_hash) (uploaded_files db))"

text \<open>
  \<open>record_file_upload\<close>. The column \<open>file_hash\<close> is declared \<open>unique=True\<close>: committing a
  second row with a hash that is in the table raises, and the session is rolled back.
\<close>

definition record_file_upload ::
  "database \<Rightarrow> nat \<Rightarrow> string \<Rightarrow> string \<Rightarrow> string \<Rightarrow> nat \<Rightarrow> error + database" where
  "record_file_upload db user_id file_name file_content bank_detected transactions_count =
     (let file_hash = generate_file_hash file_content in
      if list_ex (\<lambda>r. uf_file_hash r = file_hash) (uploaded_files db) then Inl IntegrityError
      else Inr (db\<lparr>uploaded_files := uploaded_files db @
                     [\<lparr>uf_user_id = user_id, uf_file_name = file_name, uf_file_hash = file_hash,
                       uf_file_size = length file_content, uf_bank_detected = bank_detected,
                       uf_transactions_count = transactions_count,
                       uf_processing_status = ''processed''\<rparr>]\<rparr>))"

section \<open>Upload handling (main.py)\<close>

text \<open>
  What \<open>process_uploaded_files\<close> reports for one file: the warning that it was processed
  before, the success message with the two counts, the warning that no transactions were
  found, or the error message.
\<close>

datatype outcome = AlreadyProcessed | Processed nat nat | NoTransactions | Failed error

definition process_file :: "int \<Rightarrow> nat \<Rightarrow> uploaded_file \<Rightarrow> database \<Rightarrow> database \<times> outcome" where
  "process_file current_year user_id f db =
     (if is_file_processed db (content f) then (db, AlreadyProcessed)
      else
        (case parse_file current_year f of
           Inl e \<Rightarrow> (db, Failed e)
         | Inr txs \<Rightarrow>
             if txs \<noteq> [] then
               (let categorized = categorize_transactions txs;
                    bank_format = detect_bank_format (bytes_repr (content f));
                    (db1, account) = create_or_get_account db user_id bank_format ''Primary'';
                    (db2, saved_count, duplicate_count) =
                       save_transactions db1 categorized user_id (ba_id account) (name f)
                in case record_file_upload db2 user_id (name f) (content f) bank_format saved_count of
                     Inl e \<Rightarrow> (db2, Failed e)
                   | Inr db3 \<Rightarrow> (db3, Processed saved_count duplicate_count))
             else (db, NoTransactions)))"

text \<open>The loop over the uploaded files, with the outcome of each.\<close>

fun process_uploaded_files ::
  "int \<Rightarrow> nat \<Rightarrow> uploaded_file list \<Rightarrow> database \<Rightarrow> database \<times> outcome list" where
  "process_uploaded_files current_year user_id [] db = (db, [])"
| "process_uploaded_files current_year user_id (f # fs) db =
     (case process_file current_year user_id f db of
        (db', out) \<Rightarrow>
          (case process_uploaded_files current_year user_id fs db' of
             (db'', outs) \<Rightarrow> (db'', out # outs)))"

definition empty_database :: database where
  "empty_database = \<lparr>bank_accounts = [], transactions = [], uploaded_files = []\<rparr>"

section \<open>Sample files\<close>

text \<open>
  A CSV statement of HDFC with one row, a CSV statement with a header and no rows, a CSV
  export without a date column, and a PDF whose page has no transaction line.
\<close>

definition hdfc_statement :: uploaded_file where
  "hdfc_statement =
     \<lparr>name = ''hdfc.csv'',
      content = ''Date,Narration,Debit,Credit'' @ [CHR 0x0A] @ ''15/01/2024,ATM,100.0,'' @ [CHR 0x0A],
      csv_frame = Some \<lparr>columns = [''Date'', ''Narration'', ''Debit'', ''Credit''],
                         data = [[Some ''15/01/2024'', Some ''ATM'', Some ''100.0'', None]]\<rparr>,
      pdf_pages = None\<rparr>"

definition empty_statement :: uploaded_file where
  "empty_statement =
     \<lparr>name = ''statement.csv'',
      content = ''Date,Description,Amount'' @ [CHR 0x0A],
      csv_frame = Some \<lparr>columns = [''Date'', ''Description'', ''Amount''], data = []\<rparr>,
      pdf_pages = None\<rparr>"

definition no_date_statement :: uploaded_file where
  "no_date_statement =
     \<lparr>name = ''export.csv'',
      content = ''Ref,Memo,Amount'' @ [CHR 0x0A] @ ''7,Coffee,4.5'' @ [CHR 0x0A],
      csv_frame = Some \<lparr>columns = [''Ref'', ''Memo'', ''Amount''],
                         data = [[Some ''7'', Some ''Coffee'', Some ''4.5'']]\<rparr>,
      pdf_pages = None\<rparr>"

definition blank_pdf :: uploaded_file where
  "blank_pdf =
     \<lparr>name = ''scan.pdf'', content = ''%PDF-1.4'', csv_frame = None,
      pdf_pages = Some [''No activity in this period'']\<rparr>"

section \<open>Properties of the categorizer\<close>

lemma any_pattern_iff: "any_pattern ps d \<longleftrightarrow> (\<exists>p\<in>set ps. contains (lower p) d)"
  by (induction ps) auto

lemma first_category_first_hit:
  assumes "\<forall>(c', ps')\<in>set before. \<not> any_pattern ps' d" and "any_pattern ps d"
  shows "first_category (before @ (c, ps) # after) d = Some c"
  using assms by (induction before) auto

text \<open>
  Claim C6. The description \<open>UBER EATS ORDER\<close> is categorized as \<open>Food & Dining\<close>, not as
  \<open>Transportation\<close>, although the keyword \<open>uber\<close> of Transportation also occurs in it. In
  general the table is walked in its written order: when no keyword of any earlier
  category is a substring of the lower-cased description and some keyword of category
  \<open>c\<close> is, the result is \<open>c\<close>.
\<close>

theorem categorizer_first_match_wins:
  "categorize_transaction (Some ''UBER EATS ORDER'') = ''Food & Dining''
   \<and> categorize_transaction (Some ''UBER EATS ORDER'') \<noteq> ''Transportation''
   \<and> contains ''uber'' (lower ''UBER EATS ORDER'')
   \<and> (\<forall>d before c ps after.
         category_patterns = before @ (c, ps) # after
         \<and> (\<forall>(c', ps')\<in>set before. \<forall>p\<in>set ps'. \<not> contains (lower p) (lower d))
         \<and> (\<exists>p\<in>set ps. contains (lower p) (lower d))
         \<longrightarrow> categorize_transaction (Some d) = c)"
proof (intro conjI allI impI)
  show "categorize_transaction (Some ''UBER EATS ORDER'') = ''Food & Dining''"
    by code_simp
  show "categorize_transaction (Some ''UBER EATS ORDER'') \<noteq> ''Transportation''"
    by code_simp
  show "contains ''uber'' (lower ''UBER EATS ORDER'')"
    by code_simp
next
  fix d before c ps after
  assume h: "category_patterns = before @ (c, ps) # after
     \<and> (\<forall>(c', ps')\<in>set before. \<forall>p\<in>set ps'. \<not> contains (lower p) (lower d))
     \<and> (\<exists>p\<in>set ps. contains (lower p) (lower d))"
  then have "\<forall>(c', ps')\<in>set before. \<not> any_pattern ps' (lower d)"
    and "any_pattern ps (lower d)"
    by (auto simp: any_pattern_iff)
  then have "first_category (before @ (c, ps) # after) (lower d) = Some c"
    by (rule first_category_first_hit)
  with h show "categorize_transaction (Some d) = c"
    by (simp add: categorize_transaction_def)
qed

text \<open>
  The general part at \<open>UBER TRIP\<close>: the two categories before Transportation have no hit,
  Transportation has one.
\<close>

theorem categorizer_first_match_wins_witness:
  "categorize_transaction (Some ''UBER TRIP'') = ''Transportation''"
proof -
  have split: "category_patterns = take 2 category_patterns
                 @ (''Transportation'', snd (category_patterns ! 2)) # drop 3 category_patterns"
    by code_simp
  have none: "\<forall>(c', ps')\<in>set (take 2 category_patterns).
                \<forall>p\<in>set ps'. \<not> contains (lower p) (lower ''UBER TRIP'')"
    by code_simp
  have hit: "\<exists>p\<in>set (snd (category_patterns ! 2)). contains (lower p) (lower ''UBER TRIP'')"
    by code_simp
  from categorizer_first_match_wins split none hit show ?thesis
    by blast
qed


section \<open>Properties of the amounts\<close>

text \<open>The two bounds, and the range test in terms of the value.\<close>

lemma float_bounds: "overflow_bound = 2 ^ 1024 - 2 ^ 970 \<and> underflow_scale = 2 ^ 1075"
  by (simp add: overflow_bound_def underflow_scale_def two_pow_1024_def square_def)

lemma finite_float_range:
  "finite_float q =
     (if 2 ^ 1024 - 2 ^ 970 \<le> \<bar>q\<bar> then (if q < 0 then NInf else PInf)
      else if \<bar>q\<bar> \<le> 1 / 2 ^ 1075 then Fin 0
      else Fin q)"
proof -
  obtain n d where nd: "quotient_of q = (n, d)"
    by (cases "quotient_of q")
  then have d: "0 < d" and q: "q = of_int n / of_int d"
    by (simp_all add: quotient_of_denom_pos quotient_of_div)
  have absq: "\<bar>q\<bar> = of_int \<bar>n\<bar> / of_int d"
    using d q by simp
  have ob: "(2 ^ 1024 - 2 ^ 970 :: rat) = of_int overflow_bound"
    and us: "(2 ^ 1075 :: rat) = of_int underflow_scale"
    using float_bounds by simp_all
  have scale_pos: "0 < underflow_scale"
    using float_bounds by simp
  have over: "(2 ^ 1024 - 2 ^ 970 \<le> \<bar>q\<bar>) = (overflow_bound * d \<le> \<bar>n\<bar>)"
  proof -
    have "(2 ^ 1024 - 2 ^ 970 \<le> \<bar>q\<bar>) = (of_int overflow_bound \<le> of_int \<bar>n\<bar> / (of_int d :: rat))"
      by (simp only: ob absq)
    also have "\<dots> = (of_int overflow_bound * of_int d \<le> (of_int \<bar>n\<bar> :: rat))"
      using d by (simp only: pos_le_divide_eq of_int_0_less_iff)
    also have "\<dots> = (overflow_bound * d \<le> \<bar>n\<bar>)"
      by (simp only: of_int_mult [symmetric] of_int_le_iff)
    finally show ?thesis .
  qed
  have under: "(\<bar>q\<bar> \<le> 1 / 2 ^ 1075) = (\<bar>n\<bar> * underflow_scale \<le> d)"
  proof -
    have "(\<bar>q\<bar> \<le> 1 / 2 ^ 1075) = (of_int \<bar>n\<bar> / (of_int d :: rat) \<le> 1 / of_int underflow_scale)"
      by (simp only: us absq)
    also have "\<dots> = (of_int \<bar>n\<bar> * of_int underflow_scale \<le> (of_int d :: rat))"
      using d scale_pos by (simp add: field_simps del: of_int_abs)
    also have "\<dots> = (\<bar>n\<bar> * underflow_scale \<le> d)"
      by (simp only: of_int_mult [symmetric] of_int_le_iff)
    finally show ?thesis .
  qed
  have neg: "(q < 0) = (n < 0)"
    using d q by (simp add: divide_less_0_iff)
  show ?thesis
    by (simp only: finite_float_def nd prod.case over under neg)
qed

lemma fabs_fabs: "fabs (fabs a) = fabs a"
  by (cases a) auto

lemma fabs_nonneg: "\<not> flt0 (fabs a)"
  by (cases a) auto

lemma fabs_nonzero: "fne0 a \<Longrightarrow> fabs a \<noteq> Fin 0"
  by (cases a) auto

lemma map_filter_mem: "t \<in> set (List.map_filter f xs) \<Longrightarrow> \<exists>x\<in>set xs. f x = Some t"
  by (auto simp: List.map_filter_def)

text \<open>
  Both tabular extractors test \<open>amount != 0\<close> before they build a transaction: none of
  their transactions has the amount zero or a negative amount.
\<close>

lemma bank_specific_row_amount:
  assumes "bank_specific_row b r = Some t"
  shows "tx_amount t \<noteq> Fin 0 \<and> \<not> flt0 (tx_amount t)"
  using assms
  by (auto simp: bank_specific_row_def Let_def fabs_nonneg fabs_nonzero
           split: option.splits prod.splits if_splits)

lemma generic_row_amount:
  assumes "generic_row dc sc acs r = Some t"
  shows "tx_amount t \<noteq> Fin 0 \<and> \<not> flt0 (tx_amount t)"
  using assms
  by (auto simp: generic_row_def fabs_nonneg fabs_nonzero
           split: option.splits prod.splits if_splits)

lemma csv_amounts_nonzero:
  assumes "parse_csv_frame df = Inr txs" and "t \<in> set txs"
  shows "tx_amount t \<noteq> Fin 0 \<and> \<not> flt0 (tx_amount t)"
  using assms
  by (auto simp: parse_csv_frame_def parse_generic_csv_def parse_bank_specific_csv_def Let_def
           split: if_splits list.splits dest!: map_filter_mem
           dest: bank_specific_row_amount generic_row_amount)

text \<open>The text extractor: the kind is one of the two strings, the amount is not negative.\<close>

lemma make_txn_kind:
  "tx_type (make_txn d s a b) \<in> {''credit'', ''debit''} \<and> \<not> flt0 (tx_amount (make_txn d s a b))"
  by (simp add: make_txn_def Let_def fabs_nonneg)

text \<open>
  Claim C1 says that no extractor builds a transaction with the amount zero. The text
  extractor has no test of the amount: on the page text below, of a Wells Fargo
  statement, it builds a credit of amount 0.
\<close>

theorem text_extractor_builds_zero_amount:
  "parse_pdf_text 2026 ''Wells Fargo 01/15/2024 STARBUCKS 0.00'' =
     [\<lparr>tx_date = \<lparr>year = 2024, month = 1, day = 15\<rparr>, tx_description = ''STARBUCKS'',
       tx_amount = Fin 0, tx_type = ''credit'', tx_bank = ''wells_fargo''\<rparr>]"
  by code_simp

text \<open>
  Claim C2 as the code has it: when the cleaned string is not a number, \<open>_parse_amount\<close>
  returns the float 0, without raising.
\<close>

theorem parse_amount_unparseable_is_zero:
  "py_float (cleaned amount_str) = None \<Longrightarrow> parse_amount amount_str = Fin 0"
  by (simp add: parse_amount_def)

theorem parse_amount_unparseable_is_zero_witness:
  "py_float (cleaned ''$,'') = None \<and> parse_amount ''$,'' = Fin 0"
proof -
  have h: "py_float (cleaned ''$,'') = None"
    by code_simp
  from h parse_amount_unparseable_is_zero [OF h] show ?thesis
    by simp
qed

text \<open>
  Claim C2 as stated fails: the amount string \<open>,\<close> (which the amount group of the
  patterns matches) cleans to the empty string, which is not a number, and the result is
  the value 0, the same as for the string \<open>0\<close>.
\<close>

theorem parse_amount_zero_is_error_signal:
  "py_float (cleaned '','') = None \<and> parse_amount '','' = Fin 0 \<and> parse_amount ''0'' = Fin 0"
  by code_simp

section \<open>Properties of the dates\<close>

text \<open>
  A format whose directives are \<open>%m\<close> and \<open>%d\<close> only reads no year, and the digits of the
  current year that the source appends to the format are literal characters.
\<close>

lemma first_some_SomeD: "first_some f xs = Some y \<Longrightarrow> \<exists>x\<in>set xs. f x = Some y"
  by (induction xs) (auto split: option.splits)

lemma set_field_keeps_year:
  "k = CHR ''m'' \<or> k = CHR ''d'' \<Longrightarrow> tm_year (set_field k v t) = tm_year t"
  by (auto simp: set_field_def)

lemma match_items_keeps_year:
  assumes "match_items items s t = Some (t', rest)"
    and "\<forall>k. Directive k \<in> set items \<longrightarrow> k = CHR ''m'' \<or> k = CHR ''d''"
  shows "tm_year t' = tm_year t"
  using assms
proof (induction items s t rule: match_items.induct)
  case (1 s t)
  then show ?case by simp
next
  case (2 c items s t)
  then show ?case by (auto split: list.splits if_splits)
next
  case (3 k items s t)
  from "3.prems"(1) obtain v r where mem: "(v, r) \<in> set (alternatives k s)"
    and m: "match_items items r (set_field k v t) = Some (t', rest)"
    by (auto dest!: first_some_SomeD)
  from "3.prems"(2) have k: "k = CHR ''m'' \<or> k = CHR ''d''" by simp
  from "3.IH" [OF m] "3.prems"(2) have "tm_year t' = tm_year (set_field k v t)"
    by simp
  with k show ?case by (simp add: set_field_keeps_year)
qed

lemma parse_format_literals: "CHR ''%'' \<notin> set s \<Longrightarrow> parse_format s = Some (map Literal s)"
  by (induction s rule: parse_format.induct) auto

lemma digit_char_not_percent: "0 \<le> k \<Longrightarrow> k < 10 \<Longrightarrow> digit_char k \<noteq> CHR ''%''"
proof
  assume k: "0 \<le> k" "k < 10" and eq: "digit_char k = CHR ''%''"
  then have "(of_char (char_of (48 + k)) :: int) = of_char (CHR ''%'')"
    by (simp add: digit_char_def)
  then have "(48 + k) mod 256 = 37"
    by simp
  with k show False by simp
qed

lemma str_digits_no_percent: "0 \<le> n \<Longrightarrow> CHR ''%'' \<notin> set (str_digits n)"
proof (induction n rule: str_digits.induct)
  case (1 n)
  show ?case
  proof (cases "n < 10")
    case True
    with "1.prems" show ?thesis
      by (subst str_digits.simps) (simp add: digit_char_not_percent [THEN not_sym])
  next
    case False
    then have "0 \<le> n div 10" and "0 \<le> n mod 10" and "n mod 10 < 10"
      using "1.prems" by simp_all
    with False "1.IH" show ?thesis
      by (subst str_digits.simps) (simp add: digit_char_not_percent [THEN not_sym])
  qed
qed

lemma str_int_no_percent: "0 \<le> n \<Longrightarrow> CHR ''%'' \<notin> set (str_int n)"
  by (simp add: str_int_def str_digits_no_percent)

lemma yearless_format_items:
  assumes "CHR ''%'' \<notin> set y"
  shows "parse_format (''%m/%d'' @ ''/'' @ y)
         = Some (Directive (CHR ''m'') # Literal (CHR ''/'') # Directive (CHR ''d'')
                 # map Literal (CHR ''/'' # y))"
proof -
  have "parse_format (CHR ''/'' # y) = Some (map Literal (CHR ''/'' # y))"
    using assms by (intro parse_format_literals) simp
  then show ?thesis by simp
qed

lemma strptime_SomeD:
  assumes "strptime ds fmt = Some d"
  shows "\<exists>items t rest. parse_format fmt = Some items
           \<and> match_items items ds \<lparr>tm_year = None, tm_month = 1, tm_day = 1\<rparr> = Some (t, rest)
           \<and> year d = (case tm_year t of None \<Rightarrow> 1900 | Some y \<Rightarrow> y)"
  using assms by (fastforce simp: strptime_def Let_def split: option.splits if_splits)

lemma strptime_yearless:
  assumes "CHR ''%'' \<notin> set y" and "strptime ds (''%m/%d'' @ ''/'' @ y) = Some d"
  shows "year d = 1900"
proof -
  let ?items = "Directive (CHR ''m'') # Literal (CHR ''/'') # Directive (CHR ''d'')
                 # map Literal (CHR ''/'' # y)"
  from strptime_SomeD [OF assms(2)] obtain items t rest
    where pf: "parse_format (''%m/%d'' @ ''/'' @ y) = Some items"
      and m: "match_items items ds \<lparr>tm_year = None, tm_month = 1, tm_day = 1\<rparr> = Some (t, rest)"
      and d: "year d = (case tm_year t of None \<Rightarrow> 1900 | Some y \<Rightarrow> y)"
    by blast
  from pf yearless_format_items [OF assms(1)] have items: "items = ?items"
    by simp
  have "\<forall>k. Directive k \<in> set ?items \<longrightarrow> k = CHR ''m'' \<or> k = CHR ''d''"
    by auto
  with m items have "tm_year t = tm_year \<lparr>tm_year = None, tm_month = 1, tm_day = 1\<rparr>"
    using match_items_keeps_year by blast
  with d show ?thesis by simp
qed

text \<open>
  Whatever the current year is: a date without a year on a Chase statement, when it
  parses at all, is in the year 1900.
\<close>

lemma chase_match_year:
  assumes "0 \<le> current_year" and "split_len (CHR ''/'') date_str = 2"
    and "bank_specific_match current_year ''chase'' ''%m/%d'' (date_str, description, amount_str) = Some t"
  shows "year (tx_date t) = 1900"
proof -
  from assms(2,3) obtain d where
    p: "strptime (date_str @ ''/'' @ str_int current_year) (''%m/%d'' @ ''/'' @ str_int current_year) = Some d"
    and t: "t = make_txn d description amount_str ''chase''"
    by (auto simp: bank_specific_match_def split: option.splits)
  from strptime_yearless [OF str_int_no_percent [OF assms(1)] p] t show ?thesis
    by (simp add: make_txn_def Let_def)
qed

text \<open>
  Claim C3 says that a date without a year gets the current year. The source appends
  the current year to the date string and to the format string alike, so the year is
  matched as literal text and not read: the date is in 1900, the default of \<open>strptime\<close>.
  Here the current year is 2026, for the flexible parser and for a Chase statement
  (the bank whose date format has no year).
\<close>

theorem yearless_date_is_in_1900:
  "parse_date_flexible 2026 ''01/15'' = Some \<lparr>year = 1900, month = 1, day = 15\<rparr>
   \<and> parse_pdf_text 2026 ''Chase 01/15 COFFEE 4.50'' =
       [\<lparr>tx_date = \<lparr>year = 1900, month = 1, day = 15\<rparr>, tx_description = ''COFFEE'',
         tx_amount = Fin (9 / 2), tx_type = ''credit'', tx_bank = ''chase''\<rparr>]"
  by code_simp

section \<open>Properties of the transaction hash\<close>

text \<open>The hash is a function of the string that joins the date, the amount and the description.\<close>

lemma hash_of_hash_string:
  "hash_string d a s = hash_string d' a' s'
   \<Longrightarrow> generate_transaction_hash d a s = generate_transaction_hash d' a' s'"
  by (simp add: generate_transaction_hash_def)

lemma colliding_hash_strings:
  "hash_string \<lparr>year = 2024, month = 1, day = 15\<rparr> (Fin (155 / 100)) ''5 STORE''
   = hash_string \<lparr>year = 2024, month = 1, day = 15\<rparr> (Fin (3 / 2)) ''55 STORE''"
  by code_simp

text \<open>
  Claim C4 says that two transactions have the same hash only if they have the same
  date, amount and description. The code joins the three fields without separators:
  the amount 1.5 with the description \<open>55 STORE\<close> and the amount 1.55 with the description
  \<open>5 STORE\<close>, on the same day, are hashed from the same string \<open>202401151.555 STORE\<close>, and
  \<open>save_transactions\<close> stores the first and counts the second, a different transaction,
  as a duplicate.
\<close>

theorem transaction_hash_collision:
  "(Fin (3 / 2), ''55 STORE'') \<noteq> (Fin (155 / 100), ''5 STORE'')
   \<and> generate_transaction_hash \<lparr>year = 2024, month = 1, day = 15\<rparr> (Fin (3 / 2)) ''55 STORE''
     = generate_transaction_hash \<lparr>year = 2024, month = 1, day = 15\<rparr> (Fin (155 / 100)) ''5 STORE''
   \<and> snd (save_transactions empty_database
            [\<lparr>tx_date = \<lparr>year = 2024, month = 1, day = 15\<rparr>, tx_description = ''55 STORE'',
              tx_amount = Fin (3 / 2), tx_type = ''debit'', tx_bank = ''unknown'',
              tx_category = ''Other''\<rparr>,
             \<lparr>tx_date = \<lparr>year = 2024, month = 1, day = 15\<rparr>, tx_description = ''5 STORE'',
              tx_amount = Fin (155 / 100), tx_type = ''debit'', tx_bank = ''unknown'',
              tx_category = ''Other''\<rparr>] 1 1 ''card.csv'') = (1, 1)"
proof (intro conjI)
  show "(Fin (3 / 2), ''55 STORE'') \<noteq> (Fin (155 / 100), ''5 STORE'')"
    by simp
  show eq: "generate_transaction_hash \<lparr>year = 2024, month = 1, day = 15\<rparr> (Fin (3 / 2)) ''55 STORE''
     = generate_transaction_hash \<lparr>year = 2024, month = 1, day = 15\<rparr> (Fin (155 / 100)) ''5 STORE''"
    by (rule hash_of_hash_string [OF colliding_hash_strings [symmetric]])
  let ?h = "generate_transaction_hash \<lparr>year = 2024, month = 1, day = 15\<rparr> (Fin (3 / 2)) ''55 STORE''"
  let ?r1 = "\<lparr>tx_date = \<lparr>year = 2024, month = 1, day = 15\<rparr>, tx_description = ''55 STORE'',
              tx_amount = Fin (3 / 2), tx_type = ''debit'', tx_bank = ''unknown'',
              tx_category = ''Other''\<rparr>"
  let ?r2 = "\<lparr>tx_date = \<lparr>year = 2024, month = 1, day = 15\<rparr>, tx_description = ''5 STORE'',
              tx_amount = Fin (155 / 100), tx_type = ''debit'', tx_bank = ''unknown'',
              tx_category = ''Other''\<rparr>"
  have h1: "generate_transaction_hash (tx_date ?r1) (tx_amount ?r1) (tx_description ?r1) = ?h"
    by simp
  have h2: "generate_transaction_hash (tx_date ?r2) (tx_amount ?r2) (tx_description ?r2) = ?h"
    using eq by simp
  show "snd (save_transactions empty_database [?r1, ?r2] 1 1 ''card.csv'') = (1, 1)"
    unfolding save_transactions_def save_loop.simps Let_def h1 h2
    by (simp add: empty_database_def)
qed

section \<open>Properties of the upload handling\<close>

lemma is_file_processed_iff:
  "is_file_processed db c \<longleftrightarrow> (\<exists>r\<in>set (uploaded_files db). uf_file_hash r = generate_file_hash c)"
  by (simp add: is_file_processed_def list_ex_iff)

lemma create_or_get_account_files:
  "uploaded_files (fst (create_or_get_account db u b a)) = uploaded_files db"
  by (simp add: create_or_get_account_def Let_def split: option.splits)

lemma save_loop_files:
  "uploaded_files (fst (save_loop rows u a fn db s d)) = uploaded_files db"
  by (induction rows u a fn db s d rule: save_loop.induct) (simp_all add: Let_def)

lemma save_transactions_files:
  "uploaded_files (fst (save_transactions db rows u a fn)) = uploaded_files db"
  by (simp add: save_transactions_def save_loop_files)

lemma record_file_upload_ok:
  "\<not> is_file_processed db c \<Longrightarrow> \<exists>db'. record_file_upload db u n c b k = Inr db'"
  by (simp add: record_file_upload_def is_file_processed_def Let_def)

lemma record_file_upload_processed:
  "record_file_upload db u n c b k = Inr db' \<Longrightarrow> is_file_processed db' c"
  by (auto simp: record_file_upload_def is_file_processed_def Let_def list_ex_iff split: if_splits)

lemma record_file_upload_duplicate:
  "is_file_processed db c \<Longrightarrow> record_file_upload db u n c b k = Inl IntegrityError"
  by (simp add: record_file_upload_def is_file_processed_def Let_def)

lemma record_file_upload_distinct:
  assumes "record_file_upload db u n c b k = Inr db'"
    and "distinct (map uf_file_hash (uploaded_files db))"
  shows "distinct (map uf_file_hash (uploaded_files db'))"
proof -
  let ?h = "generate_file_hash c"
  from assms(1) have fresh: "?h \<notin> set (map uf_file_hash (uploaded_files db))"
    by (auto simp: record_file_upload_def Let_def list_ex_iff split: if_splits)
  from assms(1) have "map uf_file_hash (uploaded_files db') = map uf_file_hash (uploaded_files db) @ [?h]"
    by (auto simp: record_file_upload_def Let_def split: if_splits)
  with fresh assms(2) show ?thesis
    by simp
qed

lemma process_file_already:
  "is_file_processed db (content f) \<Longrightarrow> process_file cy u f db = (db, AlreadyProcessed)"
  by (simp add: process_file_def)

lemma process_file_failed:
  "\<not> is_file_processed db (content f) \<Longrightarrow> parse_file cy f = Inl e
   \<Longrightarrow> process_file cy u f db = (db, Failed e)"
  by (simp add: process_file_def)

lemma process_file_empty:
  "\<not> is_file_processed db (content f) \<Longrightarrow> parse_file cy f = Inr []
   \<Longrightarrow> process_file cy u f db = (db, NoTransactions)"
  by (simp add: process_file_def)

text \<open>
  A file that is new and has a transaction is stored: the check before the upload
  guarantees that recording it cannot violate the unique hash.
\<close>

lemma process_file_stored:
  assumes "\<not> is_file_processed db (content f)" and "parse_file cy f = Inr txs" and "txs \<noteq> []"
  shows "\<exists>db' s d. process_file cy u f db = (db', Processed s d) \<and> is_file_processed db' (content f)"
proof -
  let ?bank = "detect_bank_format (bytes_repr (content f))"
  obtain db1 account where acc: "create_or_get_account db u ?bank ''Primary'' = (db1, account)"
    by (cases "create_or_get_account db u ?bank ''Primary''")
  obtain db2 s d where sv:
    "save_transactions db1 (categorize_transactions txs) u (ba_id account) (name f) = (db2, s, d)"
    by (cases "save_transactions db1 (categorize_transactions txs) u (ba_id account) (name f)")
  have "uploaded_files db1 = uploaded_files db"
    using create_or_get_account_files [of db u ?bank "''Primary''"] acc by simp
  moreover have "uploaded_files db2 = uploaded_files db1"
    using save_transactions_files [of db1 "categorize_transactions txs" u "ba_id account" "name f"] sv
    by simp
  ultimately have "\<not> is_file_processed db2 (content f)"
    using assms(1) by (simp add: is_file_processed_iff)
  then obtain db3 where rec: "record_file_upload db2 u (name f) (content f) ?bank s = Inr db3"
    using record_file_upload_ok by blast
  then have "is_file_processed db3 (content f)"
    by (rule record_file_upload_processed)
  moreover have "process_file cy u f db = (db3, Processed s d)"
    using assms acc sv rec by (simp add: process_file_def Let_def)
  ultimately show ?thesis by blast
qed

lemma empty_database_unprocessed: "\<not> is_file_processed empty_database c"
  by (simp add: is_file_processed_def empty_database_def)


lemma hdfc_statement_parse:
  "parse_file 2026 hdfc_statement =
     Inr [\<lparr>tx_date = \<lparr>year = 2024, month = 1, day = 15\<rparr>, tx_description = ''ATM'',
           tx_amount = Fin 100, tx_type = ''debit'', tx_bank = ''hdfc''\<rparr>]"
  by code_simp

lemma empty_statement_parse: "parse_file 2026 empty_statement = Inr []"
  by code_simp

lemma blank_pdf_parse: "parse_file 2026 blank_pdf = Inr []"
  by code_simp

lemma hdfc_statement_as_pdf:
  "parse_file 2026 (hdfc_statement\<lparr>name := ''hdfc.pdf''\<rparr>) = Inl ReadError"
  by code_simp

lemma no_date_statement_parse: "parse_file 2026 no_date_statement = Inl NoRequiredColumns"
  by code_simp

text \<open>The four outcomes of \<open>process_file\<close>, by the state of the store and the parse result.\<close>

lemma process_file_cases:
  "(is_file_processed db (content f) \<and> process_file cy u f db = (db, AlreadyProcessed))
   \<or> (\<not> is_file_processed db (content f)
        \<and> (\<exists>e. parse_file cy f = Inl e \<and> process_file cy u f db = (db, Failed e)))
   \<or> (\<not> is_file_processed db (content f) \<and> parse_file cy f = Inr []
        \<and> process_file cy u f db = (db, NoTransactions))
   \<or> (\<not> is_file_processed db (content f)
        \<and> (\<exists>db' s d. process_file cy u f db = (db', Processed s d)
                       \<and> is_file_processed db' (content f)))"
proof (cases "is_file_processed db (content f)")
  case True
  then show ?thesis by (simp add: process_file_already)
next
  case new: False
  show ?thesis
  proof (cases "parse_file cy f")
    case (Inl e)
    with new show ?thesis by (simp add: process_file_failed)
  next
    case (Inr txs)
    show ?thesis
    proof (cases "txs = []")
      case True
      with new Inr show ?thesis by (simp add: process_file_empty)
    next
      case False
      from process_file_stored [OF new Inr False, of u] new show ?thesis
        by blast
    qed
  qed
qed

lemma process_file_unrecorded:
  assumes "\<not> is_file_processed db (content f)"
  shows "snd (process_file cy u f db) \<noteq> AlreadyProcessed"
  using process_file_cases [of db f cy u] assms by auto

text \<open>
  Claim C5 as the code has it, for a first ingestion of a file \<open>f\<close> and a later upload
  \<open>f'\<close> of the same bytes, under any name, by any user, in any year. When the first
  ingestion stored the file or found it stored, the later upload is rejected before
  extraction, reported as already processed, and the store is unchanged. When the first
  ingestion found no transaction or failed in parsing, it changed nothing and recorded
  no hash: the later upload is not reported as already processed, extraction runs
  again, and for the same file it gives the outcome of the first time and inserts
  nothing.
\<close>

theorem reingest_same_bytes:
  assumes "process_file cy u f db = (db1, out1)" and "content f' = content f"
  shows "(out1 = AlreadyProcessed \<or> (\<exists>s d. out1 = Processed s d)
            \<longrightarrow> process_file cy' u' f' db1 = (db1, AlreadyProcessed))
         \<and> (out1 = NoTransactions \<or> (\<exists>e. out1 = Failed e)
            \<longrightarrow> db1 = db \<and> \<not> is_file_processed db1 (content f')
                \<and> snd (process_file cy' u' f' db1) \<noteq> AlreadyProcessed
                \<and> process_file cy u' f db1 = (db1, out1))"
proof (intro conjI impI)
  assume "out1 = AlreadyProcessed \<or> (\<exists>s d. out1 = Processed s d)"
  with process_file_cases [of db f cy u] assms(1) have "is_file_processed db1 (content f)"
    by auto
  with assms(2) show "process_file cy' u' f' db1 = (db1, AlreadyProcessed)"
    by (simp add: process_file_already)
next
  assume out: "out1 = NoTransactions \<or> (\<exists>e. out1 = Failed e)"
  with process_file_cases [of db f cy u] assms(1)
  have same: "db1 = db" and new: "\<not> is_file_processed db (content f)"
    and parse: "(out1 = NoTransactions \<and> parse_file cy f = Inr [])
                \<or> (\<exists>e. out1 = Failed e \<and> parse_file cy f = Inl e)"
    by auto
  from same show "db1 = db" .
  from same new assms(2) show unrecorded: "\<not> is_file_processed db1 (content f')"
    by simp
  then show "snd (process_file cy' u' f' db1) \<noteq> AlreadyProcessed"
    by (rule process_file_unrecorded)
  from same new parse show "process_file cy u' f db1 = (db1, out1)"
    by (auto simp: process_file_empty process_file_failed)
qed

text \<open>
  The HDFC statement, uploaded by user 1 and then by user 2 under another name a year
  later; and the export without a date column, uploaded twice.
\<close>

theorem reingest_same_bytes_witness:
  "process_file 2027 2 (hdfc_statement\<lparr>name := ''copy.pdf''\<rparr>)
     (fst (process_file 2026 1 hdfc_statement empty_database))
   = (fst (process_file 2026 1 hdfc_statement empty_database), AlreadyProcessed)
   \<and> process_file 2026 2 no_date_statement
       (fst (process_file 2026 1 no_date_statement empty_database))
     = (empty_database, Failed NoRequiredColumns)"
proof -
  obtain db1 s d where first: "process_file 2026 1 hdfc_statement empty_database = (db1, Processed s d)"
    using process_file_stored [OF empty_database_unprocessed hdfc_statement_parse, of 1] by auto
  have bytes: "content (hdfc_statement\<lparr>name := ''copy.pdf''\<rparr>) = content hdfc_statement"
    by simp
  from reingest_same_bytes [OF first bytes, of 2027 2] first
  have a: "process_file 2027 2 (hdfc_statement\<lparr>name := ''copy.pdf''\<rparr>)
             (fst (process_file 2026 1 hdfc_statement empty_database))
           = (fst (process_file 2026 1 hdfc_statement empty_database), AlreadyProcessed)"
    by auto
  have second: "process_file 2026 1 no_date_statement empty_database
                = (empty_database, Failed NoRequiredColumns)"
    by (rule process_file_failed [OF empty_database_unprocessed no_date_statement_parse])
  from reingest_same_bytes [OF second refl, of 2026 2] second
  have b: "process_file 2026 2 no_date_statement
             (fst (process_file 2026 1 no_date_statement empty_database))
           = (empty_database, Failed NoRequiredColumns)"
    by auto
  from a b show ?thesis by simp
qed

text \<open>
  Claim C5 as stated fails in two ways. A file without transactions is never recorded:
  its second ingestion is not rejected as a duplicate file, it is parsed again and
  reported as having no transactions. And the same bytes can insert transactions the
  second time: uploaded under the name \<open>hdfc.pdf\<close> the bytes of the HDFC statement fail to
  be read, and the store, here the empty one, is returned with nothing recorded; uploaded
  again as \<open>hdfc.csv\<close> to that store they are processed and one transaction is stored.
\<close>

theorem reingest_empty_file_not_duplicate:
  "process_file 2026 1 empty_statement empty_database = (empty_database, NoTransactions)
   \<and> process_file 2026 1 empty_statement (fst (process_file 2026 1 empty_statement empty_database))
       = (empty_database, NoTransactions)
   \<and> content (hdfc_statement\<lparr>name := ''hdfc.pdf''\<rparr>) = content hdfc_statement
   \<and> process_file 2026 1 (hdfc_statement\<lparr>name := ''hdfc.pdf''\<rparr>) empty_database
       = (empty_database, Failed ReadError)
   \<and> snd (process_file 2026 1 hdfc_statement empty_database) = Processed 1 0
   \<and> length (transactions (fst (process_file 2026 1 hdfc_statement empty_database))) = 1"
proof -
  have second: "process_file 2026 u hdfc_statement empty_database
      = (\<lparr>bank_accounts =
             [\<lparr>ba_id = 1, ba_user_id = u,
               ba_bank_name = detect_bank_format (bytes_repr (content hdfc_statement)),
               ba_account_name = ''Primary''\<rparr>],
           transactions =
             [\<lparr>t_user_id = u, t_bank_account_id = 1,
               t_date = \<lparr>year = 2024, month = 1, day = 15\<rparr>, t_description = ''ATM'',
               t_amount = Fin 100, t_transaction_type = ''debit'',
               t_category = categorize_transaction (Some ''ATM''),
               t_original_file_name = name hdfc_statement,
               t_transaction_hash =
                 generate_transaction_hash \<lparr>year = 2024, month = 1, day = 15\<rparr> (Fin 100) ''ATM''\<rparr>],
           uploaded_files =
             [\<lparr>uf_user_id = u, uf_file_name = name hdfc_statement,
               uf_file_hash = generate_file_hash (content hdfc_statement),
               uf_file_size = length (content hdfc_statement),
               uf_bank_detected = detect_bank_format (bytes_repr (content hdfc_statement)),
               uf_transactions_count = 1, uf_processing_status = ''processed''\<rparr>]\<rparr>,
         Processed 1 0)" for u
    by (simp add: process_file_def is_file_processed_def hdfc_statement_parse
          categorize_transactions_def create_or_get_account_def save_transactions_def
          record_file_upload_def empty_database_def Let_def)
  show ?thesis
    by (simp add: second
          process_file_failed [OF empty_database_unprocessed hdfc_statement_as_pdf]
          process_file_empty [OF empty_database_unprocessed empty_statement_parse])
qed

text \<open>
  Claim C9. The test for an already processed file looks for the hash of the bytes among
  the rows of all users: once any user has recorded a file, every upload of the same
  bytes, by whichever user, is reported as already processed. The hash column is unique
  over the whole table: recording bytes whose hash is in the table is refused, and the
  hashes of the table stay pairwise distinct.
\<close>

theorem file_duplicate_check_is_global:
  "(is_file_processed db c \<longleftrightarrow> (\<exists>r\<in>set (uploaded_files db). uf_file_hash r = generate_file_hash c))
   \<and> (record_file_upload db u n c b k = Inr db'
        \<longrightarrow> (\<forall>cy u' (f'::uploaded_file). content f' = c
               \<longrightarrow> process_file cy u' f' db' = (db', AlreadyProcessed)))
   \<and> (is_file_processed db c \<longrightarrow> record_file_upload db u' n' c b' k' = Inl IntegrityError)
   \<and> (record_file_upload db u n c b k = Inr db' \<and> distinct (map uf_file_hash (uploaded_files db))
        \<longrightarrow> distinct (map uf_file_hash (uploaded_files db')))"
proof (intro conjI impI allI)
  show "is_file_processed db c \<longleftrightarrow> (\<exists>r\<in>set (uploaded_files db). uf_file_hash r = generate_file_hash c)"
    by (rule is_file_processed_iff)
next
  fix cy u' and f' :: uploaded_file
  assume "record_file_upload db u n c b k = Inr db'" and "content f' = c"
  then show "process_file cy u' f' db' = (db', AlreadyProcessed)"
    using record_file_upload_processed process_file_already by blast
next
  assume "is_file_processed db c"
  then show "record_file_upload db u' n' c b' k' = Inl IntegrityError"
    by (rule record_file_upload_duplicate)
next
  assume "record_file_upload db u n c b k = Inr db' \<and> distinct (map uf_file_hash (uploaded_files db))"
  then show "distinct (map uf_file_hash (uploaded_files db'))"
    using record_file_upload_distinct by blast
qed

text \<open>User 1 records the HDFC statement; user 2 then uploads the same bytes.\<close>

theorem file_duplicate_check_is_global_witness:
  "\<exists>db'. record_file_upload empty_database 1 ''hdfc.csv'' (content hdfc_statement) ''unknown'' 1 = Inr db'
     \<and> process_file 2026 2 hdfc_statement db' = (db', AlreadyProcessed)
     \<and> record_file_upload db' 2 ''copy.csv'' (content hdfc_statement) ''unknown'' 1 = Inl IntegrityError"
proof -
  obtain db' where rec:
    "record_file_upload empty_database 1 ''hdfc.csv'' (content hdfc_statement) ''unknown'' 1 = Inr db'"
    using record_file_upload_ok [OF empty_database_unprocessed] by blast
  note g = file_duplicate_check_is_global
    [of empty_database "content hdfc_statement" 1 "''hdfc.csv''" "''unknown''" 1 db']
  from g rec have a: "process_file 2026 2 hdfc_statement db' = (db', AlreadyProcessed)"
    by blast
  from record_file_upload_processed [OF rec]
    file_duplicate_check_is_global [of db' "content hdfc_statement" _ _ _ _ _ 2 "''copy.csv''" "''unknown''" 1]
  have "record_file_upload db' 2 ''copy.csv'' (content hdfc_statement) ''unknown'' 1 = Inl IntegrityError"
    by blast
  with rec a show ?thesis by blast
qed

text \<open>
  Claim C10. When a file that is not yet recorded parses to no transaction, the store
  is returned as it was: no row of uploaded files is made, the hash of the bytes is not
  recorded, and a later upload of the same bytes is parsed again, not rejected.
\<close>

theorem empty_parse_records_nothing:
  assumes "\<not> is_file_processed db (content f)" and "parse_file cy f = Inr []"
  shows "process_file cy u f db = (db, NoTransactions)
         \<and> \<not> is_file_processed (fst (process_file cy u f db)) (content f)
         \<and> process_file cy u' f (fst (process_file cy u f db)) = (db, NoTransactions)"
  using assms by (simp add: process_file_empty)

theorem empty_parse_records_nothing_witness:
  "process_file 2026 1 blank_pdf empty_database = (empty_database, NoTransactions)
   \<and> \<not> is_file_processed (fst (process_file 2026 1 blank_pdf empty_database)) (content blank_pdf)
   \<and> process_file 2026 1 blank_pdf (fst (process_file 2026 1 blank_pdf empty_database))
       = (empty_database, NoTransactions)"
  by (rule empty_parse_records_nothing [OF empty_database_unprocessed blank_pdf_parse])


section \<open>Properties of the generic tabular extractor\<close>

lemma length_map_filter_le: "length (List.map_filter f xs) \<le> length xs"
  by (simp add: List.map_filter_def)

lemma length_iterrows: "length (iterrows df) = length (data df)"
  by (simp add: iterrows_def)

text \<open>
  With the three kinds of column found, the generic extractor applies \<open>generic_row\<close> to
  every row of the frame and keeps the transactions of the rows that are not skipped.
\<close>

lemma parse_generic_rows:
  assumes "detect_bank_from_columns (columns df) = ''unknown''"
    and "date_cols df = dc # dcs" and "desc_cols df = sc # scs" and "amount_cols df \<noteq> []"
  shows "parse_csv_frame (df\<lparr>data := rows\<rparr>)
         = Inr (List.map_filter (generic_row dc sc (amount_cols df)) (map (zip (columns df)) rows))"
  using assms
  by (simp add: parse_csv_frame_def parse_generic_csv_def date_cols_def desc_cols_def
        amount_cols_def iterrows_def)

lemma generic_amount_loop_no_number:
  assumes "\<forall>c\<in>set cols. cell_number r c = None"
  shows "generic_amount_loop cols r = None \<or> generic_amount_loop cols r = Some (None, ''debit'')"
  using assms
  by (induction cols) (auto simp: cell_number_def split: option.splits if_splits)

text \<open>
  Claim C7 as the code has it. For a data frame of an unknown bank: when no date-like,
  no description-like or no amount-like column is found, the generic extractor raises;
  the upload handler reports the error and returns the store as it was. It does not
  return an empty result, and no row of uploaded files is made (no file is marked as
  failed). When the three kinds of column are found, the extractor does not fail, and it
  works row by row: a row alone gives one transaction or none, the result for a frame
  is the result for its first row followed by the result for the other rows, so a row
  that fails is left out and the other rows are kept. A row whose date does not parse,
  and a row that holds no number in any amount-like column, give no transaction.
\<close>

theorem generic_csv_missing_columns:
  assumes "detect_bank_from_columns (columns df) = ''unknown''"
  shows "(date_cols df = [] \<or> desc_cols df = [] \<or> amount_cols df = []
            \<longrightarrow> parse_csv_frame df = Inl NoRequiredColumns
                \<and> (\<forall>cy u (f::uploaded_file) db.
                      file_extension (name f) = ''csv'' \<and> csv_frame f = Some df
                      \<and> \<not> is_file_processed db (content f)
                      \<longrightarrow> process_file cy u f db = (db, Failed NoRequiredColumns)))
         \<and> (date_cols df \<noteq> [] \<and> desc_cols df \<noteq> [] \<and> amount_cols df \<noteq> []
            \<longrightarrow> (\<exists>txs. parse_csv_frame df = Inr txs \<and> length txs \<le> length (data df))
                \<and> (\<forall>r rows. \<exists>t ts.
                      parse_csv_frame (df\<lparr>data := [r]\<rparr>) = Inr t \<and> length t \<le> 1
                      \<and> parse_csv_frame (df\<lparr>data := rows\<rparr>) = Inr ts
                      \<and> parse_csv_frame (df\<lparr>data := r # rows\<rparr>) = Inr (t @ ts))
                \<and> (\<forall>r. parse_date (lookup (zip (columns df) r) (hd (date_cols df))) = None
                      \<longrightarrow> parse_csv_frame (df\<lparr>data := [r]\<rparr>) = Inr [])
                \<and> (\<forall>r. (\<forall>c\<in>set (amount_cols df). cell_number (zip (columns df) r) c = None)
                      \<longrightarrow> parse_csv_frame (df\<lparr>data := [r]\<rparr>) = Inr []))"
proof (intro conjI impI allI)
  assume missing: "date_cols df = [] \<or> desc_cols df = [] \<or> amount_cols df = []"
  with assms show fails: "parse_csv_frame df = Inl NoRequiredColumns"
    by (simp add: parse_csv_frame_def parse_generic_csv_def)
  fix cy u db and f :: uploaded_file
  assume f: "file_extension (name f) = ''csv'' \<and> csv_frame f = Some df
             \<and> \<not> is_file_processed db (content f)"
  with fails have "parse_file cy f = Inl NoRequiredColumns"
    by (simp add: parse_file_def)
  with f show "process_file cy u f db = (db, Failed NoRequiredColumns)"
    by (simp add: process_file_failed)
next
  assume found: "date_cols df \<noteq> [] \<and> desc_cols df \<noteq> [] \<and> amount_cols df \<noteq> []"
  then obtain dc dcs sc scs where cols: "date_cols df = dc # dcs" "desc_cols df = sc # scs"
    by (auto simp: neq_Nil_conv)
  from found have ac: "amount_cols df \<noteq> []" by simp
  note rows = parse_generic_rows [OF assms cols ac]
  let ?g = "generic_row dc sc (amount_cols df)"
  from rows [of "data df"]
  have "parse_csv_frame df = Inr (List.map_filter ?g (map (zip (columns df)) (data df)))"
    by simp
  moreover have "length (List.map_filter ?g (map (zip (columns df)) (data df))) \<le> length (data df)"
    using length_map_filter_le [of ?g "map (zip (columns df)) (data df)"] by simp
  ultimately show "\<exists>txs. parse_csv_frame df = Inr txs \<and> length txs \<le> length (data df)"
    by blast
  {
    fix r rows
    let ?t = "List.map_filter ?g [zip (columns df) r]"
    let ?ts = "List.map_filter ?g (map (zip (columns df)) rows)"
    have "parse_csv_frame (df\<lparr>data := [r]\<rparr>) = Inr ?t"
      using parse_generic_rows [OF assms cols ac, of "[r]"] by simp
    moreover have "length ?t \<le> 1"
      using length_map_filter_le [of ?g "[zip (columns df) r]"] by simp
    moreover have "parse_csv_frame (df\<lparr>data := rows\<rparr>) = Inr ?ts"
      by (rule parse_generic_rows [OF assms cols ac])
    moreover have "parse_csv_frame (df\<lparr>data := r # rows\<rparr>) = Inr (?t @ ?ts)"
      using parse_generic_rows [OF assms cols ac, of "r # rows"]
      by (simp add: List.map_filter_def)
    ultimately show "\<exists>t ts. parse_csv_frame (df\<lparr>data := [r]\<rparr>) = Inr t \<and> length t \<le> 1
                      \<and> parse_csv_frame (df\<lparr>data := rows\<rparr>) = Inr ts
                      \<and> parse_csv_frame (df\<lparr>data := r # rows\<rparr>) = Inr (t @ ts)"
      by blast
  }
  {
    fix r
    assume "parse_date (lookup (zip (columns df) r) (hd (date_cols df))) = None"
    then have "?g (zip (columns df) r) = None"
      using cols by (auto simp: generic_row_def lookup_def split: option.splits)
    then show "parse_csv_frame (df\<lparr>data := [r]\<rparr>) = Inr []"
      using parse_generic_rows [OF assms cols ac, of "[r]"] by (simp add: List.map_filter_def)
  }
  {
    fix r
    assume "\<forall>c\<in>set (amount_cols df). cell_number (zip (columns df) r) c = None"
    from generic_amount_loop_no_number [OF this] have "?g (zip (columns df) r) = None"
      by (auto simp: generic_row_def split: option.splits)
    then show "parse_csv_frame (df\<lparr>data := [r]\<rparr>) = Inr []"
      using parse_generic_rows [OF assms cols ac, of "[r]"] by (simp add: List.map_filter_def)
  }
qed

lemma no_date_frame:
  "detect_bank_from_columns [''Ref'', ''Memo'', ''Amount''] = ''unknown''
   \<and> date_cols \<lparr>columns = [''Ref'', ''Memo'', ''Amount''],
                 data = [[Some ''7'', Some ''Coffee'', Some ''4.5'']]\<rparr> = []"
  by code_simp

lemma memo_frame:
  "detect_bank_from_columns [''Date'', ''Memo'', ''Amount''] = ''unknown''
   \<and> date_cols \<lparr>columns = [''Date'', ''Memo'', ''Amount''], data = []\<rparr> \<noteq> []
   \<and> desc_cols \<lparr>columns = [''Date'', ''Memo'', ''Amount''], data = []\<rparr> \<noteq> []
   \<and> amount_cols \<lparr>columns = [''Date'', ''Memo'', ''Amount''], data = []\<rparr> \<noteq> []"
  by code_simp

lemma memo_frame_rows:
  "parse_csv_frame \<lparr>columns = [''Date'', ''Memo'', ''Amount''],
                     data = [[Some ''pending'', Some ''HOLD'', Some ''5.0'']]\<rparr> = Inr []
   \<and> parse_csv_frame \<lparr>columns = [''Date'', ''Memo'', ''Amount''],
                       data = [[Some ''2024-01-05'', Some ''COFFEE'', Some ''-4.5'']]\<rparr>
     = Inr [\<lparr>tx_date = \<lparr>year = 2024, month = 1, day = 5\<rparr>, tx_description = ''COFFEE'',
             tx_amount = Fin (9 / 2), tx_type = ''debit'', tx_bank = ''unknown''\<rparr>]"
  by code_simp

text \<open>
  The export without a date column fails as a whole. In a frame with the three columns,
  a row whose date is the text \<open>pending\<close> is left out and the row after it is kept.
\<close>

theorem generic_csv_missing_columns_witness:
  "parse_csv_frame \<lparr>columns = [''Ref'', ''Memo'', ''Amount''],
                     data = [[Some ''7'', Some ''Coffee'', Some ''4.5'']]\<rparr> = Inl NoRequiredColumns
   \<and> process_file 2026 1 no_date_statement empty_database = (empty_database, Failed NoRequiredColumns)
   \<and> parse_csv_frame \<lparr>columns = [''Date'', ''Memo'', ''Amount''],
                       data = [[Some ''pending'', Some ''HOLD'', Some ''5.0''],
                               [Some ''2024-01-05'', Some ''COFFEE'', Some ''-4.5'']]\<rparr>
     = Inr [\<lparr>tx_date = \<lparr>year = 2024, month = 1, day = 5\<rparr>, tx_description = ''COFFEE'',
             tx_amount = Fin (9 / 2), tx_type = ''debit'', tx_bank = ''unknown''\<rparr>]"
proof -
  let ?df = "\<lparr>columns = [''Ref'', ''Memo'', ''Amount''],
               data = [[Some ''7'', Some ''Coffee'', Some ''4.5'']]\<rparr>"
  let ?ok = "\<lparr>columns = [''Date'', ''Memo'', ''Amount''], data = []\<rparr> :: dataframe"
  let ?bad = "[Some ''pending'', Some ''HOLD'', Some ''5.0'']"
  let ?good = "[Some ''2024-01-05'', Some ''COFFEE'', Some ''-4.5'']"
  have ext: "file_extension (name no_date_statement) = ''csv''"
    by code_simp
  have frame: "csv_frame no_date_statement = Some ?df"
    by (simp add: no_date_statement_def)
  from generic_csv_missing_columns [of ?df] no_date_frame
  have a: "parse_csv_frame ?df = Inl NoRequiredColumns"
    and b: "\<forall>cy u (f::uploaded_file) db.
              file_extension (name f) = ''csv'' \<and> csv_frame f = Some ?df
              \<and> \<not> is_file_processed db (content f)
              \<longrightarrow> process_file cy u f db = (db, Failed NoRequiredColumns)"
    by simp_all
  from b ext frame empty_database_unprocessed
  have c: "process_file 2026 1 no_date_statement empty_database = (empty_database, Failed NoRequiredColumns)"
    by blast
  from generic_csv_missing_columns [of ?ok] memo_frame
  have "\<forall>r rows. \<exists>t ts.
          parse_csv_frame (?ok\<lparr>data := [r]\<rparr>) = Inr t \<and> length t \<le> 1
          \<and> parse_csv_frame (?ok\<lparr>data := rows\<rparr>) = Inr ts
          \<and> parse_csv_frame (?ok\<lparr>data := r # rows\<rparr>) = Inr (t @ ts)"
    by simp
  then obtain t ts where
    "parse_csv_frame (?ok\<lparr>data := [?bad]\<rparr>) = Inr t"
    "parse_csv_frame (?ok\<lparr>data := [?good]\<rparr>) = Inr ts"
    "parse_csv_frame (?ok\<lparr>data := [?bad, ?good]\<rparr>) = Inr (t @ ts)"
    by blast
  with memo_frame_rows
  have d: "parse_csv_frame (?ok\<lparr>data := [?bad, ?good]\<rparr>)
           = Inr [\<lparr>tx_date = \<lparr>year = 2024, month = 1, day = 5\<rparr>, tx_description = ''COFFEE'',
                   tx_amount = Fin (9 / 2), tx_type = ''debit'', tx_bank = ''unknown''\<rparr>]"
    by simp
  from a c d show ?thesis by simp
qed

text \<open>
  Claim C7 as stated fails on an export without a date column: the result is an error,
  not the empty list, and the table of uploaded files stays empty.
\<close>

theorem missing_columns_raise_not_empty:
  "parse_file 2026 no_date_statement = Inl NoRequiredColumns
   \<and> parse_file 2026 no_date_statement \<noteq> Inr []
   \<and> uploaded_files (fst (process_file 2026 1 no_date_statement empty_database)) = []"
proof -
  have p: "parse_file 2026 no_date_statement = Inl NoRequiredColumns"
    by (rule no_date_statement_parse)
  from process_file_failed [OF empty_database_unprocessed p, of 1] p show ?thesis
    by (simp add: empty_database_def)
qed

section \<open>Properties of the debit and credit columns\<close>

lemma column_words:
  "contains ''debit'' (lower ''Debit'') \<and> \<not> contains ''debit'' (lower ''Credit'')
   \<and> contains ''credit'' (lower ''Credit'') \<and> \<not> contains ''debit'' (lower ''Amount'')
   \<and> \<not> contains ''credit'' (lower ''Amount'')"
  by code_simp

lemma amount_names_of:
  "amount_names (mapping_of ''citibank'') = [''Debit'', ''Credit'']"
  "amount_names (mapping_of ''hdfc'') = [''Debit'', ''Credit'', ''Amount'']"
  "amount_names (mapping_of ''axis'') = [''Debit'', ''Credit'', ''Amount'']"
  by (simp_all add: mapping_of_def bank_column_mappings_def)

lemma debit_credit_loop_step:
  "debit_credit_loop (col # cols) r dv cv =
     (case cell_number r col of
        None \<Rightarrow> debit_credit_loop cols r dv cv
      | Some amount \<Rightarrow>
          if contains ''debit'' (lower col) then debit_credit_loop cols r (Some amount) cv
          else if contains ''credit'' (lower col) then debit_credit_loop cols r dv (Some amount)
          else Inl (signed_amount amount))"
  by (simp add: cell_number_def split: option.splits)

lemma single_amount_loop_step:
  "single_amount_loop (col # cols) r =
     (case cell_number r col of
        None \<Rightarrow> single_amount_loop cols r
      | Some amount \<Rightarrow> signed_amount amount)"
  by (simp add: cell_number_def split: option.splits)

lemmas loop_steps = debit_credit_loop_step single_amount_loop_step

lemma extract_debit:
  assumes "b = ''citibank'' \<or> (b = ''hdfc'' \<or> b = ''axis'') \<and> cell_number r ''Amount'' = None"
    and "cell_number r ''Credit'' = None \<or> cell_number r ''Credit'' = Some (Fin 0)"
    and "cell_number r ''Debit'' = Some a" and "a \<noteq> NaN" and "a \<noteq> Fin 0"
  shows "\<exists>x. extract_amount_and_type r (mapping_of b) b = (Some x, ''debit'')
             \<and> fabs x = fabs a \<and> fne0 x"
  using assms column_words
  by (cases a)
     (auto simp add: extract_amount_and_type_def amount_names_of loop_steps positive_def
        signed_amount_def Let_def
        simp del: debit_credit_loop.simps(2) single_amount_loop.simps(2))

lemma extract_nothing:
  assumes b: "b = ''citibank'' \<or> (b = ''hdfc'' \<or> b = ''axis'') \<and> cell_number r ''Amount'' = None"
    and credit: "cell_number r ''Credit'' = None \<or> cell_number r ''Credit'' = Some (Fin 0)"
    and debit: "cell_number r ''Debit'' = None \<or> cell_number r ''Debit'' = Some (Fin 0)"
  shows "extract_amount_and_type r (mapping_of b) b = (None, ''debit'')
         \<or> extract_amount_and_type r (mapping_of b) b = (Some (Fin 0), ''credit'')"
  using assms column_words
  by (auto simp add: extract_amount_and_type_def amount_names_of loop_steps positive_def
        signed_amount_def Let_def simp del: debit_credit_loop.simps(2) single_amount_loop.simps(2))

lemma iterrows_single: "iterrows \<lparr>columns = map fst r, data = [map snd r]\<rparr> = [r]"
  by (simp add: iterrows_def zip_map_fst_snd)

text \<open>
  Claim C8 as the code has it, for a row of a bank with separate debit and credit
  columns (Citibank, HDFC, Axis) in which the credit cell holds no number or zero and,
  for HDFC and Axis, the combined amount cell holds no number. When the debit cell holds
  a number other than zero (and not a NaN) and the date of the row parses, extraction
  yields exactly one transaction, of kind debit, whose amount is the absolute value of
  the debit value. When the debit cell also holds no number or zero, the row is
  skipped. A row without a date column or with a date that does not parse is skipped
  whatever its cells hold.
\<close>

theorem debit_row_yields_debit:
  assumes "b = ''citibank'' \<or> (b = ''hdfc'' \<or> b = ''axis'') \<and> cell_number r ''Amount'' = None"
    and "cell_number r ''Credit'' = None \<or> cell_number r ''Credit'' = Some (Fin 0)"
  shows "(cell_number r ''Debit'' = Some a \<and> a \<noteq> NaN \<and> a \<noteq> Fin 0
          \<and> find_column r (date_names (mapping_of b)) = Some date_col
          \<and> parse_date (lookup r date_col) = Some d
          \<longrightarrow> parse_bank_specific_csv \<lparr>columns = map fst r, data = [map snd r]\<rparr> b
              = [\<lparr>tx_date = d,
                   tx_description =
                     strip (case find_column r (description_names (mapping_of b)) of
                              None \<Rightarrow> ''Unknown''
                            | Some desc_col \<Rightarrow> str_cell (lookup r desc_col)),
                   tx_amount = fabs a, tx_type = ''debit'', tx_bank = b\<rparr>])
       \<and> (cell_number r ''Debit'' = None \<or> cell_number r ''Debit'' = Some (Fin 0)
          \<longrightarrow> parse_bank_specific_csv \<lparr>columns = map fst r, data = [map snd r]\<rparr> b = [])
       \<and> (find_column r (date_names (mapping_of b)) = None
           \<or> (\<exists>dc. find_column r (date_names (mapping_of b)) = Some dc
                    \<and> parse_date (lookup r dc) = None)
          \<longrightarrow> parse_bank_specific_csv \<lparr>columns = map fst r, data = [map snd r]\<rparr> b = [])"
proof (intro conjI impI)
  assume h: "cell_number r ''Debit'' = Some a \<and> a \<noteq> NaN \<and> a \<noteq> Fin 0
          \<and> find_column r (date_names (mapping_of b)) = Some date_col
          \<and> parse_date (lookup r date_col) = Some d"
  with extract_debit [OF assms, of a] obtain x
    where "extract_amount_and_type r (mapping_of b) b = (Some x, ''debit'')"
      and "fabs x = fabs a" and "fne0 x"
    by blast
  with h have "bank_specific_row b r
                 = Some \<lparr>tx_date = d,
                   tx_description =
                     strip (case find_column r (description_names (mapping_of b)) of
                              None \<Rightarrow> ''Unknown''
                            | Some desc_col \<Rightarrow> str_cell (lookup r desc_col)),
                   tx_amount = fabs a, tx_type = ''debit'', tx_bank = b\<rparr>"
    by (simp add: bank_specific_row_def Let_def)
  then show "parse_bank_specific_csv \<lparr>columns = map fst r, data = [map snd r]\<rparr> b
              = [\<lparr>tx_date = d,
                   tx_description =
                     strip (case find_column r (description_names (mapping_of b)) of
                              None \<Rightarrow> ''Unknown''
                            | Some desc_col \<Rightarrow> str_cell (lookup r desc_col)),
                   tx_amount = fabs a, tx_type = ''debit'', tx_bank = b\<rparr>]"
    by (simp add: parse_bank_specific_csv_def iterrows_single List.map_filter_def)
next
  assume "cell_number r ''Debit'' = None \<or> cell_number r ''Debit'' = Some (Fin 0)"
  then have "extract_amount_and_type r (mapping_of b) b = (None, ''debit'')
         \<or> extract_amount_and_type r (mapping_of b) b = (Some (Fin 0), ''credit'')"
    by (rule extract_nothing [OF assms])
  then have "bank_specific_row b r = None"
    by (auto simp: bank_specific_row_def Let_def split: option.splits)
  then show "parse_bank_specific_csv \<lparr>columns = map fst r, data = [map snd r]\<rparr> b = []"
    by (simp add: parse_bank_specific_csv_def iterrows_single List.map_filter_def)
next
  assume "find_column r (date_names (mapping_of b)) = None
           \<or> (\<exists>dc. find_column r (date_names (mapping_of b)) = Some dc
                    \<and> parse_date (lookup r dc) = None)"
  then have "bank_specific_row b r = None"
    by (auto simp: bank_specific_row_def Let_def)
  then show "parse_bank_specific_csv \<lparr>columns = map fst r, data = [map snd r]\<rparr> b = []"
    by (simp add: parse_bank_specific_csv_def iterrows_single List.map_filter_def)
qed

lemma debit_row_facts:
  "cell_number [(''Date'', Some ''15/01/2024''), (''Narration'', Some ''ATM''),
                (''Debit'', Some ''100.0''), (''Credit'', None)] ''Amount'' = None
   \<and> cell_number [(''Date'', Some ''15/01/2024''), (''Narration'', Some ''ATM''),
                (''Debit'', Some ''100.0''), (''Credit'', None)] ''Credit'' = None
   \<and> cell_number [(''Date'', Some ''15/01/2024''), (''Narration'', Some ''ATM''),
                (''Debit'', Some ''100.0''), (''Credit'', None)] ''Debit'' = Some (Fin 100)
   \<and> find_column [(''Date'', Some ''15/01/2024''), (''Narration'', Some ''ATM''),
                (''Debit'', Some ''100.0''), (''Credit'', None)] (date_names (mapping_of ''hdfc''))
       = Some ''Date''
   \<and> parse_date (lookup [(''Date'', Some ''15/01/2024''), (''Narration'', Some ''ATM''),
                (''Debit'', Some ''100.0''), (''Credit'', None)] ''Date'')
       = Some \<lparr>year = 2024, month = 1, day = 15\<rparr>
   \<and> strip (case find_column [(''Date'', Some ''15/01/2024''), (''Narration'', Some ''ATM''),
                (''Debit'', Some ''100.0''), (''Credit'', None)]
                  (description_names (mapping_of ''hdfc'')) of
               None \<Rightarrow> ''Unknown''
             | Some desc_col \<Rightarrow>
                 str_cell (lookup [(''Date'', Some ''15/01/2024''), (''Narration'', Some ''ATM''),
                                   (''Debit'', Some ''100.0''), (''Credit'', None)] desc_col))
       = ''ATM''"
  by code_simp

lemma blank_row_facts:
  "cell_number [(''Date'', Some ''15/01/2024''), (''Description'', Some ''NOTE''),
                (''Debit'', None), (''Credit'', Some ''0.0'')] ''Credit'' = Some (Fin 0)
   \<and> cell_number [(''Date'', Some ''15/01/2024''), (''Description'', Some ''NOTE''),
                (''Debit'', None), (''Credit'', Some ''0.0'')] ''Debit'' = None"
  by code_simp

lemma pending_row_facts:
  "cell_number [(''Date'', Some ''pending''), (''Narration'', Some ''ATM''),
                (''Debit'', Some ''100.0''), (''Credit'', None)] ''Amount'' = None
   \<and> cell_number [(''Date'', Some ''pending''), (''Narration'', Some ''ATM''),
                (''Debit'', Some ''100.0''), (''Credit'', None)] ''Credit'' = None
   \<and> find_column [(''Date'', Some ''pending''), (''Narration'', Some ''ATM''),
                (''Debit'', Some ''100.0''), (''Credit'', None)] (date_names (mapping_of ''hdfc''))
       = Some ''Date''
   \<and> parse_date (lookup [(''Date'', Some ''pending''), (''Narration'', Some ''ATM''),
                (''Debit'', Some ''100.0''), (''Credit'', None)] ''Date'') = None"
  by code_simp

text \<open>
  A row of HDFC with a debit of 100 and no credit; a row of Citibank with no debit and a
  credit of zero; and the first row again with the text \<open>pending\<close> for its date.
\<close>

theorem debit_row_yields_debit_witness:
  "parse_bank_specific_csv
        \<lparr>columns = [''Date'', ''Narration'', ''Debit'', ''Credit''],
          data = [[Some ''15/01/2024'', Some ''ATM'', Some ''100.0'', None]]\<rparr> ''hdfc''
      = [\<lparr>tx_date = \<lparr>year = 2024, month = 1, day = 15\<rparr>, tx_description = ''ATM'',
           tx_amount = Fin 100, tx_type = ''debit'', tx_bank = ''hdfc''\<rparr>]
   \<and> parse_bank_specific_csv
        \<lparr>columns = [''Date'', ''Description'', ''Debit'', ''Credit''],
          data = [[Some ''15/01/2024'', Some ''NOTE'', None, Some ''0.0'']]\<rparr> ''citibank'' = []
   \<and> parse_bank_specific_csv
        \<lparr>columns = [''Date'', ''Narration'', ''Debit'', ''Credit''],
          data = [[Some ''pending'', Some ''ATM'', Some ''100.0'', None]]\<rparr> ''hdfc'' = []"
proof -
  let ?r = "[(''Date'', Some ''15/01/2024''), (''Narration'', Some ''ATM''),
             (''Debit'', Some ''100.0''), (''Credit'', None)]"
  let ?q = "[(''Date'', Some ''15/01/2024''), (''Description'', Some ''NOTE''),
             (''Debit'', None), (''Credit'', Some ''0.0'')]"
  let ?p = "[(''Date'', Some ''pending''), (''Narration'', Some ''ATM''),
             (''Debit'', Some ''100.0''), (''Credit'', None)]"
  from debit_row_yields_debit [of "''hdfc''" ?r "Fin 100" "''Date''" "\<lparr>year = 2024, month = 1, day = 15\<rparr>"]
    debit_row_facts
  have a: "parse_bank_specific_csv \<lparr>columns = map fst ?r, data = [map snd ?r]\<rparr> ''hdfc''
      = [\<lparr>tx_date = \<lparr>year = 2024, month = 1, day = 15\<rparr>, tx_description = ''ATM'',
           tx_amount = fabs (Fin 100), tx_type = ''debit'', tx_bank = ''hdfc''\<rparr>]"
    by simp
  from debit_row_yields_debit [of "''citibank''" ?q] blank_row_facts
  have b: "parse_bank_specific_csv \<lparr>columns = map fst ?q, data = [map snd ?q]\<rparr> ''citibank'' = []"
    by simp
  from debit_row_yields_debit [of "''hdfc''" ?p] pending_row_facts
  have c: "parse_bank_specific_csv \<lparr>columns = map fst ?p, data = [map snd ?p]\<rparr> ''hdfc'' = []"
    by simp
  from a b c show ?thesis by simp
qed

text \<open>
  Claim C8 as stated fails in five rows: a debit of -50 with a credit of zero is stored
  with the amount 50, not -50; a debit of 100 with a credit of zero and an amount cell of
  30 is stored as a credit of 30; a row whose debit and credit cells are both empty is
  not skipped when its amount cell holds 30; a debit of 100 with an empty credit yields
  no transaction when the date of the row does not parse; and a debit cell that reads as
  a NaN is stored as a credit.
\<close>

theorem debit_row_not_as_stated:
  "parse_csv_frame
     \<lparr>columns = [''Date'', ''Description'', ''Debit'', ''Credit'', ''Citi Ref''],
       data = [[Some ''01/15/2024'', Some ''REVERSAL'', Some ''-50.0'', Some ''0.0'', Some ''9'']]\<rparr>
   = Inr [\<lparr>tx_date = \<lparr>year = 2024, month = 1, day = 15\<rparr>, tx_description = ''REVERSAL'',
           tx_amount = Fin 50, tx_type = ''debit'', tx_bank = ''citibank''\<rparr>]
   \<and> cell_float (Some ''-50.0'') = Some (Fin (- 50))
   \<and> parse_csv_frame
     \<lparr>columns = [''Date'', ''Narration'', ''Debit'', ''Credit'', ''Amount''],
       data = [[Some ''15/01/2024'', Some ''ATM'', Some ''100.0'', Some ''0.0'', Some ''30.0'']]\<rparr>
   = Inr [\<lparr>tx_date = \<lparr>year = 2024, month = 1, day = 15\<rparr>, tx_description = ''ATM'',
           tx_amount = Fin 30, tx_type = ''credit'', tx_bank = ''hdfc''\<rparr>]
   \<and> parse_csv_frame
     \<lparr>columns = [''Date'', ''Narration'', ''Debit'', ''Credit'', ''Amount''],
       data = [[Some ''15/01/2024'', Some ''ATM'', None, None, Some ''30.0'']]\<rparr>
   = Inr [\<lparr>tx_date = \<lparr>year = 2024, month = 1, day = 15\<rparr>, tx_description = ''ATM'',
           tx_amount = Fin 30, tx_type = ''credit'', tx_bank = ''hdfc''\<rparr>]
   \<and> parse_csv_frame
     \<lparr>columns = [''Date'', ''Narration'', ''Debit'', ''Credit''],
       data = [[Some ''pending'', Some ''ATM'', Some ''100.0'', None]]\<rparr>
   = Inr []
   \<and> parse_csv_frame
     \<lparr>columns = [''Date'', ''Narration'', ''Debit'', ''Credit''],
       data = [[Some ''15/01/2024'', Some ''ATM'', Some ''$nan'', None]]\<rparr>
   = Inr [\<lparr>tx_date = \<lparr>year = 2024, month = 1, day = 15\<rparr>, tx_description = ''ATM'',
           tx_amount = NaN, tx_type = ''credit'', tx_bank = ''hdfc''\<rparr>]"
  by code_simp


end
